theory Spec2Isabelle
  imports
    Main
    "HOL-Library.Word"
    "HOL-Library.List_Lexorder"
    "HOL-Library.Multiset"
begin

unbundle bit_operations_syntax

section \<open>CoinDB schema: keychains, accounts, signing scripts and transactions\<close>

text \<open>
  A shallow embedding of \<^verbatim>\<open>deps/CoinDB/src/Schema.hxx\<close>. Every class is a record
  (or a datatype where it refers to itself), every member function a HOL function that
  takes the object and returns the updated object, and every
  \<^verbatim>\<open>throw std::runtime_error(msg)\<close> is the value \<open>Inl (runtime_error msg)\<close>.

  \<^verbatim>\<open>bytes_t\<close> and \<^verbatim>\<open>secure_bytes_t\<close> are vectors of unsigned chars; their
  \<^verbatim>\<open>operator<\<close> is the lexicographic order, which is the order of
  \<^typ>\<open>8 word list\<close> here. The database identifiers \<^verbatim>\<open>id_\<close> are assigned by the
  persistence layer and are not part of the model.
\<close>

type_synonym bytes_t = "8 word list"
type_synonym secure_bytes_t = "8 word list"
type_synonym uint32_t = "32 word"
type_synonym uint64_t = "64 word"

datatype error = runtime_error string

subsection \<open>The collaborators of the HD key derivation\<close>

text \<open>
  \<^verbatim>\<open>hdkeys.h\<close> and \<^verbatim>\<open>hash.h\<close> are not part of the sources. Their functions are
  parameters of the model: a record of functions over an abstract type \<open>'h\<close> of
  \<^verbatim>\<open>Coin::HDKeychain\<close> values. They are taken to be total; a failure inside a
  collaborator is outside the model.
\<close>

record 'h hdkeys =
  sha256 :: "bytes_t \<Rightarrow> bytes_t"
  ripemd160 :: "bytes_t \<Rightarrow> bytes_t"
  getMasterKey :: "secure_bytes_t \<Rightarrow> bytes_t"
  getMasterChainCode :: "secure_bytes_t \<Rightarrow> bytes_t"
  HDKeychain :: "bytes_t \<Rightarrow> bytes_t \<Rightarrow> uint32_t \<Rightarrow> uint32_t \<Rightarrow> uint32_t \<Rightarrow> 'h"
  getChild :: "'h \<Rightarrow> uint32_t \<Rightarrow> 'h"
  hd_key :: "'h \<Rightarrow> bytes_t"
  hd_privkey :: "'h \<Rightarrow> bytes_t"
  hd_pubkey :: "'h \<Rightarrow> bytes_t"
  hd_chain_code :: "'h \<Rightarrow> bytes_t"
  hd_child_num :: "'h \<Rightarrow> uint32_t"
  hd_parent_fp :: "'h \<Rightarrow> uint32_t"
  hd_depth :: "'h \<Rightarrow> uint32_t"
  getPublicSigningKey :: "'h \<Rightarrow> uint32_t \<Rightarrow> bytes_t"

text \<open>
  Modelled from the spec: \<^verbatim>\<open>Coin::HDKeychain::hash()\<close> is not under the sources. The
  spec (and the comment on \<^verbatim>\<open>Keychain::hash()\<close>) give it as
  \<^verbatim>\<open>ripemd160(sha256(pubkey + chain_code))\<close> of the HD keychain.
\<close>

definition hd_hash :: "'h hdkeys \<Rightarrow> 'h \<Rightarrow> bytes_t" where
  "hd_hash L h = ripemd160 L (sha256 L (hd_pubkey L h @ hd_chain_code L h))"

subsection \<open>Keychain\<close>

text \<open>
  The members of \<^verbatim>\<open>class Keychain\<close>. \<^verbatim>\<open>parent_\<close> is a shared pointer to another
  keychain: the datatype holds the parent as it was when the child was derived.
  \<^verbatim>\<open>children_\<close>, the non-owning inverse of \<^verbatim>\<open>parent_\<close>, is filled by the
  persistence layer only and is left out.
\<close>

record keychain_fields =
  kf_name :: string
  kf_depth :: uint32_t
  kf_parent_fp :: uint32_t
  kf_child_num :: uint32_t
  kf_pubkey :: bytes_t
  kf_chain_code :: secure_bytes_t
  kf_chain_code_ciphertext :: bytes_t
  kf_chain_code_salt :: bytes_t
  kf_privkey :: secure_bytes_t
  kf_privkey_ciphertext :: bytes_t
  kf_privkey_salt :: bytes_t
  kf_derivation_path :: "uint32_t list"
  kf_hash :: bytes_t

datatype keychain = Keychain (members: keychain_fields) (parent: "keychain option")

abbreviation kc_name :: "keychain \<Rightarrow> string" where
  "kc_name k \<equiv> kf_name (members k)"
abbreviation kc_depth :: "keychain \<Rightarrow> uint32_t" where
  "kc_depth k \<equiv> kf_depth (members k)"
abbreviation kc_parent_fp :: "keychain \<Rightarrow> uint32_t" where
  "kc_parent_fp k \<equiv> kf_parent_fp (members k)"
abbreviation kc_child_num :: "keychain \<Rightarrow> uint32_t" where
  "kc_child_num k \<equiv> kf_child_num (members k)"
abbreviation kc_pubkey :: "keychain \<Rightarrow> bytes_t" where
  "kc_pubkey k \<equiv> kf_pubkey (members k)"
abbreviation kc_chain_code :: "keychain \<Rightarrow> bytes_t" where
  "kc_chain_code k \<equiv> kf_chain_code (members k)"
abbreviation kc_chain_code_ciphertext :: "keychain \<Rightarrow> bytes_t" where
  "kc_chain_code_ciphertext k \<equiv> kf_chain_code_ciphertext (members k)"
abbreviation kc_privkey :: "keychain \<Rightarrow> bytes_t" where
  "kc_privkey k \<equiv> kf_privkey (members k)"
abbreviation kc_privkey_ciphertext :: "keychain \<Rightarrow> bytes_t" where
  "kc_privkey_ciphertext k \<equiv> kf_privkey_ciphertext (members k)"
abbreviation kc_derivation_path :: "keychain \<Rightarrow> uint32_t list" where
  "kc_derivation_path k \<equiv> kf_derivation_path (members k)"
abbreviation kc_hash :: "keychain \<Rightarrow> bytes_t" where
  "kc_hash k \<equiv> kf_hash (members k)"

text \<open>An assignment to members of \<^verbatim>\<open>*this\<close>: the members change, the parent stays.\<close>

definition assign :: "(keychain_fields \<Rightarrow> keychain_fields) \<Rightarrow> keychain \<Rightarrow> keychain" where
  "assign g k = Keychain (g (members k)) (parent k)"

text \<open>\<^verbatim>\<open>bool isPrivate() const\<close>\<close>

definition isPrivate :: "keychain \<Rightarrow> bool" where
  "isPrivate this = (kc_privkey this \<noteq> [] \<or> kc_privkey_ciphertext this \<noteq> [])"

text \<open>
  \<^verbatim>\<open>setPrivateKeyLockKey\<close> and \<^verbatim>\<open>setChainCodeLockKey\<close>: the lock key is not used
  (its parameter name is commented out in the source); the ciphertext is the cleartext.
\<close>

definition setPrivateKeyLockKey ::
  "secure_bytes_t \<Rightarrow> bytes_t \<Rightarrow> keychain \<Rightarrow> error + keychain" where
  "setPrivateKeyLockKey lock_key salt this =
     (if \<not> isPrivate this then
        Inl (runtime_error ''Cannot lock the private key of a public keychain.'')
      else if kc_privkey this = [] then Inl (runtime_error ''Key is locked.'')
      else Inr (assign (\<lambda>f. f\<lparr>kf_privkey_ciphertext := kf_privkey f,
                                 kf_privkey_salt := salt\<rparr>) this))"

definition setChainCodeLockKey ::
  "secure_bytes_t \<Rightarrow> bytes_t \<Rightarrow> keychain \<Rightarrow> error + keychain" where
  "setChainCodeLockKey lock_key salt this =
     (if kc_chain_code this = [] then Inl (runtime_error ''Chain code is locked.'')
      else Inr (assign (\<lambda>f. f\<lparr>kf_chain_code_ciphertext := kf_chain_code f,
                                 kf_chain_code_salt := salt\<rparr>) this))"

definition lockPrivateKey :: "keychain \<Rightarrow> keychain" where
  "lockPrivateKey this = assign (\<lambda>f. f\<lparr>kf_privkey := []\<rparr>) this"

definition lockChainCode :: "keychain \<Rightarrow> keychain" where
  "lockChainCode this = assign (\<lambda>f. f\<lparr>kf_chain_code := []\<rparr>) this"

definition lockAll :: "keychain \<Rightarrow> keychain" where
  "lockAll this = lockChainCode (lockPrivateKey this)"

definition isPrivateKeyLocked :: "keychain \<Rightarrow> error + bool" where
  "isPrivateKeyLocked this =
     (if \<not> isPrivate this then Inl (runtime_error ''Keychain is not private.'')
      else Inr (kc_privkey this = []))"

definition isChainCodeLocked :: "keychain \<Rightarrow> bool" where
  "isChainCodeLocked this = (kc_chain_code this = [])"

definition unlockPrivateKey :: "secure_bytes_t \<Rightarrow> keychain \<Rightarrow> error + keychain" where
  "unlockPrivateKey lock_key this =
     (if \<not> isPrivate this then
        Inl (runtime_error ''Cannot unlock the private key of a public keychain.'')
      else if kc_privkey this \<noteq> [] then Inr this
      else Inr (assign (\<lambda>f. f\<lparr>kf_privkey := kf_privkey_ciphertext f\<rparr>) this))"

definition unlockChainCode :: "secure_bytes_t \<Rightarrow> keychain \<Rightarrow> keychain" where
  "unlockChainCode lock_key this =
     (if kc_chain_code this \<noteq> [] then this
      else assign (\<lambda>f. f\<lparr>kf_chain_code := kf_chain_code_ciphertext f\<rparr>) this)"

text \<open>
  The constructor of a root keychain. \<^verbatim>\<open>Coin::HDKeychain\<close> is built from the master
  key and chain code alone; the three remaining arguments of its constructor take their
  defaults, which for a master node are zero.
\<close>

definition new_Keychain ::
  "'h hdkeys \<Rightarrow> string \<Rightarrow> secure_bytes_t \<Rightarrow> secure_bytes_t \<Rightarrow> bytes_t \<Rightarrow> error + keychain" where
  "new_Keychain L name entropy lock_key salt =
     (if name = [] \<or> hd name = CHR ''@'' then Inl (runtime_error ''Invalid keychain name.'')
      else
        let hdKeychain = HDKeychain L (getMasterKey L entropy) (getMasterChainCode L entropy) 0 0 0;
            this = Keychain
              \<lparr>kf_name = name,
               kf_depth = hd_depth L hdKeychain,
               kf_parent_fp = hd_parent_fp L hdKeychain,
               kf_child_num = hd_child_num L hdKeychain,
               kf_pubkey = hd_pubkey L hdKeychain,
               kf_chain_code = hd_chain_code L hdKeychain,
               kf_chain_code_ciphertext = [],
               kf_chain_code_salt = [],
               kf_privkey = hd_key L hdKeychain,
               kf_privkey_ciphertext = [],
               kf_privkey_salt = [],
               kf_derivation_path = [],
               kf_hash = hd_hash L hdKeychain\<rparr> None
        in case setPrivateKeyLockKey lock_key salt this of
             Inl e \<Rightarrow> Inl e
           | Inr this' \<Rightarrow> setChainCodeLockKey lock_key salt this')"

text \<open>
  \<^verbatim>\<open>Keychain& operator=(const Keychain& source)\<close>: every member but \<^verbatim>\<open>name_\<close> is
  copied, then the hash is computed from the copied public key and chain code.
\<close>

definition Keychain_operator_assign :: "'h hdkeys \<Rightarrow> keychain \<Rightarrow> keychain \<Rightarrow> keychain" where
  "Keychain_operator_assign L this source =
     (let f = (members this)
            \<lparr>kf_depth := kc_depth source,
             kf_parent_fp := kc_parent_fp source,
             kf_child_num := kc_child_num source,
             kf_pubkey := kc_pubkey source,
             kf_chain_code := kc_chain_code source,
             kf_chain_code_ciphertext := kc_chain_code_ciphertext source,
             kf_chain_code_salt := kf_chain_code_salt (members source),
             kf_privkey := kc_privkey source,
             kf_privkey_ciphertext := kc_privkey_ciphertext source,
             kf_privkey_salt := kf_privkey_salt (members source),
             kf_derivation_path := kc_derivation_path source\<rparr>;
          hashdata = kf_pubkey f @ kf_chain_code f
      in Keychain (f\<lparr>kf_hash := ripemd160 L (sha256 L hashdata)\<rparr>) (parent source))"

text \<open>
  \<^verbatim>\<open>child(i, get_private)\<close>. The child starts as \<^verbatim>\<open>new Keychain()\<close>, whose name,
  ciphertexts and salts are empty, and gets the members the source assigns.
\<close>

definition child :: "'h hdkeys \<Rightarrow> keychain \<Rightarrow> uint32_t \<Rightarrow> bool \<Rightarrow> error + keychain" where
  "child L this i get_private =
     (if get_private \<and> \<not> isPrivate this then
        Inl (runtime_error ''Cannot get private child from public keychain.'')
      else if kc_chain_code this = [] then Inl (runtime_error ''Chain code is locked.'')
      else if get_private then
        (if kc_privkey this = [] then Inl (runtime_error ''Private key is locked.'')
         else
           let hdkeychain = getChild L (HDKeychain L (kc_privkey this) (kc_chain_code this)
                 (kc_child_num this) (kc_parent_fp this) (kc_depth this)) i
           in Inr (Keychain
                \<lparr>kf_name = [],
                 kf_depth = hd_depth L hdkeychain,
                 kf_parent_fp = hd_parent_fp L hdkeychain,
                 kf_child_num = hd_child_num L hdkeychain,
                 kf_pubkey = hd_pubkey L hdkeychain,
                 kf_chain_code = hd_chain_code L hdkeychain,
                 kf_chain_code_ciphertext = [],
                 kf_chain_code_salt = [],
                 kf_privkey = hd_privkey L hdkeychain,
                 kf_privkey_ciphertext = [],
                 kf_privkey_salt = [],
                 kf_derivation_path = kc_derivation_path this @ [i],
                 kf_hash = hd_hash L hdkeychain\<rparr> (Some this)))
      else
        let hdkeychain = getChild L (HDKeychain L (kc_pubkey this) (kc_chain_code this)
              (kc_child_num this) (kc_parent_fp this) (kc_depth this)) i
        in Inr (Keychain
             \<lparr>kf_name = [],
              kf_depth = hd_depth L hdkeychain,
              kf_parent_fp = hd_parent_fp L hdkeychain,
              kf_child_num = hd_child_num L hdkeychain,
              kf_pubkey = hd_pubkey L hdkeychain,
              kf_chain_code = hd_chain_code L hdkeychain,
              kf_chain_code_ciphertext = [],
              kf_chain_code_salt = [],
              kf_privkey = [],
              kf_privkey_ciphertext = [],
              kf_privkey_salt = [],
              kf_derivation_path = kc_derivation_path this @ [i],
              kf_hash = hd_hash L hdkeychain\<rparr> (Some this)))"

text \<open>\<^verbatim>\<open>root()\<close> follows the parent pointers to the keychain that has none.\<close>

fun root :: "keychain \<Rightarrow> keychain" where
  "root (Keychain f None) = Keychain f None"
| "root (Keychain f (Some p)) = root p"

text \<open>
  \<^verbatim>\<open>getSigningPublicKey(i, derivation_path)\<close>: the loop
  \<^verbatim>\<open>for (auto k: derivation_path) hdkeychain = hdkeychain.getChild(k)\<close> is a left fold.
\<close>

definition getSigningPublicKey_kc ::
  "'h hdkeys \<Rightarrow> keychain \<Rightarrow> uint32_t \<Rightarrow> uint32_t list \<Rightarrow> error + bytes_t" where
  "getSigningPublicKey_kc L this i derivation_path =
     (if kc_chain_code this = [] then Inl (runtime_error ''Chain code is locked.'')
      else
        let hdkeychain = foldl (getChild L)
              (HDKeychain L (kc_pubkey this) (kc_chain_code this)
                 (kc_child_num this) (kc_parent_fp this) (kc_depth this)) derivation_path
        in Inr (getPublicSigningKey L hdkeychain i))"

subsection \<open>Key\<close>

record key =
  key_root_keychain :: keychain
  key_derivation_path :: "uint32_t list"
  key_index :: uint32_t
  key_pubkey :: bytes_t
  key_is_private :: bool

text \<open>\<^verbatim>\<open>Key::Key(keychain, index)\<close>\<close>

definition new_Key :: "'h hdkeys \<Rightarrow> keychain \<Rightarrow> uint32_t \<Rightarrow> error + key" where
  "new_Key L keychain index =
     (let root_keychain = root keychain
      in case getSigningPublicKey_kc L keychain index [] of
           Inl e \<Rightarrow> Inl e
         | Inr pk \<Rightarrow>
             Inr \<lparr>key_root_keychain = root_keychain,
                  key_derivation_path = kc_derivation_path keychain,
                  key_index = index,
                  key_pubkey = pk,
                  key_is_private = isPrivate root_keychain\<rparr>)"

subsection \<open>The collaborators for scripts and transactions\<close>

text \<open>
  \<^verbatim>\<open>CoinQ_script.h\<close>, \<^verbatim>\<open>CoinNodeData.h\<close> and \<^verbatim>\<open>hash.h\<close> are not part of the
  sources either. \<^verbatim>\<open>Coin::Transaction\<close>, \<^verbatim>\<open>Coin::TxIn\<close> and \<^verbatim>\<open>Coin::TxOut\<close>
  are records of the members the schema reads and writes; the functions are parameters:
  \<^item> \<open>multisig_txinscript m pubkeys\<close> and \<open>multisig_txoutscript m pubkeys\<close> are
    \<^verbatim>\<open>txinscript(EDIT)\<close> and \<^verbatim>\<open>txoutscript()\<close> of
    \<^verbatim>\<open>Script(PAY_TO_MULTISIG_SCRIPT_HASH, m, pubkeys)\<close>;
  \<^item> \<open>sigsneeded s\<close> is \<^verbatim>\<open>Script(s).sigsneeded()\<close>;
  \<^item> \<open>Transaction_raw\<close> is the constructor \<^verbatim>\<open>Coin::Transaction(raw)\<close>.
\<close>

record coin_txin =
  ci_previousOut_hash :: bytes_t
  ci_previousOut_index :: uint32_t
  ci_scriptSig :: bytes_t
  ci_sequence :: uint32_t

record coin_txout =
  co_value :: uint64_t
  co_scriptPubKey :: bytes_t

record coin_transaction =
  ct_version :: uint32_t
  ct_inputs :: "coin_txin list"
  ct_outputs :: "coin_txout list"
  ct_lockTime :: uint32_t

record coin =
  multisig_txinscript :: "nat \<Rightarrow> bytes_t list \<Rightarrow> bytes_t"
  multisig_txoutscript :: "nat \<Rightarrow> bytes_t list \<Rightarrow> bytes_t"
  sigsneeded :: "bytes_t \<Rightarrow> nat"
  sha256_2 :: "bytes_t \<Rightarrow> bytes_t"
  getSerialized :: "coin_transaction \<Rightarrow> bytes_t"
  getHashLittleEndian :: "coin_transaction \<Rightarrow> bytes_t"
  Transaction_raw :: "bytes_t \<Rightarrow> coin_transaction"

text \<open>
  Modelled from the spec: \<^verbatim>\<open>Coin::Transaction::clearScriptSigs()\<close> is not under the
  sources. The spec has the unsigned hash computed over the transaction "with every
  input's unlocking script cleared".
\<close>

definition clearScriptSigs :: "coin_transaction \<Rightarrow> coin_transaction" where
  "clearScriptSigs coin_tx = coin_tx\<lparr>ct_inputs := map (\<lambda>i. i\<lparr>ci_scriptSig := []\<rparr>) (ct_inputs coin_tx)\<rparr>"

subsection \<open>Account and AccountBin\<close>

text \<open>
  \<^verbatim>\<open>KeychainSet\<close> is a \<^verbatim>\<open>std::set\<close> of shared pointers: its elements are distinct
  objects, iterated in the order of their addresses. The model keeps one list entry per
  object, in iteration order; what is proved about a set is proved for every order.
  \<^verbatim>\<open>Account::bins_\<close>, the non-owning inverse of \<^verbatim>\<open>AccountBin::account_\<close>, is
  empty after construction and only changed by \<^verbatim>\<open>addBin\<close>; it is left out.
  \<^verbatim>\<open>minsigs\<close> is an \<^verbatim>\<open>unsigned int\<close> that is only stored and compared with the
  size of the set, so it is a natural number here; the default
  \<^verbatim>\<open>time_created = time(NULL)\<close> is passed by the caller.
\<close>

record account =
  acct_name :: string
  acct_minsigs :: nat
  acct_keychains :: "keychain list"
  acct_unused_pool_size :: uint32_t
  acct_time_created :: uint32_t

definition new_Account ::
  "string \<Rightarrow> nat \<Rightarrow> keychain list \<Rightarrow> uint32_t \<Rightarrow> uint32_t \<Rightarrow> error + account" where
  "new_Account name minsigs keychains unused_pool_size time_created =
     (if name = [] \<or> hd name = CHR ''@'' then Inl (runtime_error ''Invalid account name.'')
      else if length keychains > 15 then
        Inl (runtime_error ''Account can use at most 15 keychains.'')
      else if minsigs > length keychains then
        Inl (runtime_error ''Account minimum signatures cannot exceed number of keychains.'')
      else Inr \<lparr>acct_name = name, acct_minsigs = minsigs, acct_keychains = keychains,
                acct_unused_pool_size = unused_pool_size, acct_time_created = time_created\<rparr>)"

record accountbin =
  bin_account :: account
  bin_index :: uint32_t
  bin_name :: string
  bin_script_count :: uint32_t
  bin_keychains :: "keychain list"

definition new_AccountBin :: "account \<Rightarrow> uint32_t \<Rightarrow> string \<Rightarrow> accountbin" where
  "new_AccountBin account index name =
     \<lparr>bin_account = account, bin_index = index, bin_name = name, bin_script_count = 0,
      bin_keychains = []\<rparr>"

text \<open>
  \<^verbatim>\<open>loadKeychains()\<close>. The loop inserts one child at a time, so an exception of
  \<^verbatim>\<open>child\<close> leaves the children inserted before it in \<^verbatim>\<open>keychains_\<close>: the error
  comes with the bin as the loop left it.
\<close>

fun loadKeychains_loop ::
  "'h hdkeys \<Rightarrow> keychain list \<Rightarrow> accountbin \<Rightarrow> (error \<times> accountbin) + accountbin" where
  "loadKeychains_loop L [] this = Inr this"
| "loadKeychains_loop L (keychain # rest) this =
     (case child L keychain (bin_index this) False of
        Inl e \<Rightarrow> Inl (e, this)
      | Inr c \<Rightarrow> loadKeychains_loop L rest (this\<lparr>bin_keychains := bin_keychains this @ [c]\<rparr>))"

definition loadKeychains ::
  "'h hdkeys \<Rightarrow> accountbin \<Rightarrow> (error \<times> accountbin) + (bool \<times> accountbin)" where
  "loadKeychains L this =
     (if bin_keychains this \<noteq> [] then Inr (False, this)
      else case loadKeychains_loop L (acct_keychains (bin_account this)) this of
             Inl x \<Rightarrow> Inl x
           | Inr this' \<Rightarrow> Inr (True, this'))"

subsection \<open>SigningScript\<close>

text \<open>
  \<^verbatim>\<open>enum status_t { UNUSED = 1, CHANGE = 2, PENDING = 4, RECEIVED = 8, CANCELED = 16,
  ALL = 31 }\<close>; the constants carry the prefix \<open>SS_\<close> to keep them apart from those of
  \<^verbatim>\<open>Tx::status_t\<close>.
\<close>

datatype ss_status_t = SS_UNUSED | SS_CHANGE | SS_PENDING | SS_RECEIVED | SS_CANCELED | SS_ALL

fun ss_status_value :: "ss_status_t \<Rightarrow> 32 word" where
  "ss_status_value SS_UNUSED = 1"
| "ss_status_value SS_CHANGE = 2"
| "ss_status_value SS_PENDING = 4"
| "ss_status_value SS_RECEIVED = 8"
| "ss_status_value SS_CANCELED = 16"
| "ss_status_value SS_ALL = 31"

text \<open>
  \<^verbatim>\<open>getStatusString(int status)\<close> and \<^verbatim>\<open>getStatusFlags(int status)\<close>. The argument
  is a 32-bit \<^verbatim>\<open>int\<close>; \<^verbatim>\<open>if (status & FLAG)\<close> tests a bit, whatever the sign.
  \<^verbatim>\<open>stdutils::delimited_list\<close> is not part of the sources and is a parameter.
\<close>

definition getStatusString :: "(string list \<Rightarrow> string \<Rightarrow> string) \<Rightarrow> 32 word \<Rightarrow> string" where
  "getStatusString delimited_list status =
     (let flags = [];
          flags = (if status AND ss_status_value SS_UNUSED \<noteq> 0 then flags @ [''UNUSED''] else flags);
          flags = (if status AND ss_status_value SS_CHANGE \<noteq> 0 then flags @ [''CHANGE''] else flags);
          flags = (if status AND ss_status_value SS_PENDING \<noteq> 0 then flags @ [''PENDING''] else flags);
          flags = (if status AND ss_status_value SS_RECEIVED \<noteq> 0 then flags @ [''RECEIVED''] else flags);
          flags = (if status AND ss_status_value SS_CANCELED \<noteq> 0 then flags @ [''CANCELED''] else flags)
      in if flags = [] then ''UNKNOWN'' else delimited_list flags '' | '')"

definition getStatusFlags :: "32 word \<Rightarrow> ss_status_t list" where
  "getStatusFlags status =
     (let flags = [];
          flags = (if status AND ss_status_value SS_UNUSED \<noteq> 0 then flags @ [SS_UNUSED] else flags);
          flags = (if status AND ss_status_value SS_CHANGE \<noteq> 0 then flags @ [SS_CHANGE] else flags);
          flags = (if status AND ss_status_value SS_PENDING \<noteq> 0 then flags @ [SS_PENDING] else flags);
          flags = (if status AND ss_status_value SS_RECEIVED \<noteq> 0 then flags @ [SS_RECEIVED] else flags);
          flags = (if status AND ss_status_value SS_CANCELED \<noteq> 0 then flags @ [SS_CANCELED] else flags)
      in flags)"

text \<open>The strings \<^verbatim>\<open>getStatusString\<close> pushes for the flags (none for \<^verbatim>\<open>ALL\<close>, which it does not test).\<close>

fun ss_status_name :: "ss_status_t \<Rightarrow> string" where
  "ss_status_name SS_UNUSED = ''UNUSED''"
| "ss_status_name SS_CHANGE = ''CHANGE''"
| "ss_status_name SS_PENDING = ''PENDING''"
| "ss_status_name SS_RECEIVED = ''RECEIVED''"
| "ss_status_name SS_CANCELED = ''CANCELED''"
| "ss_status_name SS_ALL = ''ALL''"

record signingscript =
  ss_account :: account
  ss_account_bin :: accountbin
  ss_index :: uint32_t
  ss_label :: string
  ss_status :: ss_status_t
  ss_txinscript :: bytes_t
  ss_txoutscript :: bytes_t
  ss_keys :: "key list"

text \<open>
  The constructor \<^verbatim>\<open>SigningScript(account_bin, index, label, status)\<close>. It loads the
  keychains of the bin it shares with its caller, so the bin it returns inside the script
  is the bin after \<^verbatim>\<open>loadKeychains\<close>, and an exception comes with the bin as it was
  left. \<^verbatim>\<open>std::sort\<close> with the comparison of the public keys is \<open>sort_key key_pubkey\<close>:
  the order it gives to keys with equal public keys does not show in the scripts, which
  are built from the public keys alone.
\<close>

fun keys_loop :: "'h hdkeys \<Rightarrow> keychain list \<Rightarrow> uint32_t \<Rightarrow> key list \<Rightarrow> error + key list" where
  "keys_loop L [] index keys = Inr keys"
| "keys_loop L (keychain # rest) index keys =
     (case new_Key L keychain index of
        Inl e \<Rightarrow> Inl e
      | Inr key \<Rightarrow> keys_loop L rest index (keys @ [key]))"

definition new_SigningScript ::
  "'h hdkeys \<Rightarrow> coin \<Rightarrow> accountbin \<Rightarrow> uint32_t \<Rightarrow> string \<Rightarrow> ss_status_t
     \<Rightarrow> (error \<times> accountbin) + signingscript" where
  "new_SigningScript L C account_bin index label status =
     (case loadKeychains L account_bin of
        Inl x \<Rightarrow> Inl x
      | Inr (loaded, bin) \<Rightarrow>
          (case keys_loop L (bin_keychains bin) index [] of
             Inl e \<Rightarrow> Inl (e, bin)
           | Inr keys \<Rightarrow>
               let keys = sort_key key_pubkey keys;
                   pubkeys = map key_pubkey keys
               in Inr \<lparr>ss_account = bin_account account_bin,
                       ss_account_bin = bin,
                       ss_index = index,
                       ss_label = label,
                       ss_status = status,
                       ss_txinscript = multisig_txinscript C (acct_minsigs (bin_account account_bin)) pubkeys,
                       ss_txoutscript = multisig_txoutscript C (acct_minsigs (bin_account account_bin)) pubkeys,
                       ss_keys = keys\<rparr>))"

subsection \<open>BlockHeader, TxIn and TxOut\<close>

record blockheader =
  bh_hash :: bytes_t
  bh_height :: uint32_t
  bh_version :: uint32_t
  bh_prevhash :: bytes_t
  bh_merkleroot :: bytes_t
  bh_timestamp :: uint32_t
  bh_bits :: uint32_t
  bh_nonce :: uint32_t

text \<open>
  \<^verbatim>\<open>TxIn\<close> and \<^verbatim>\<open>TxOut\<close>. The back-pointer \<^verbatim>\<open>tx_\<close> to the owning transaction
  is left out: the record of the transaction has the inputs and outputs its weak
  pointers point to, and a change of an input's script through another pointer to it is
  a change of that entry.
\<close>

record txin =
  txin_outhash :: bytes_t
  txin_outindex :: uint32_t
  txin_script :: bytes_t
  txin_sequence :: uint32_t
  txin_txindex :: uint32_t

datatype txout_type_t = TXOUT_NONE | TXOUT_CHANGE | TXOUT_DEBIT | TXOUT_CREDIT | TXOUT_ALL

record txout =
  txout_value :: uint64_t
  txout_script :: bytes_t
  txout_txindex :: uint32_t
  txout_spent :: "txin option"
  txout_signingscript :: "signingscript option"
  txout_account_id :: "nat option"
  txout_type :: txout_type_t

text \<open>
  \<^verbatim>\<open>TxIn::TxIn(const Coin::TxIn&)\<close> and \<^verbatim>\<open>TxOut::TxOut(const Coin::TxOut&)\<close> leave
  \<^verbatim>\<open>txindex_\<close> unset; \<^verbatim>\<open>Tx::fromCoinClasses\<close> sets it right after the construction,
  so the constructors take it as an argument here.
\<close>

definition TxIn_of_coin :: "coin_txin \<Rightarrow> uint32_t \<Rightarrow> txin" where
  "TxIn_of_coin coin_txin txindex =
     \<lparr>txin_outhash = ci_previousOut_hash coin_txin,
      txin_outindex = ci_previousOut_index coin_txin,
      txin_script = ci_scriptSig coin_txin,
      txin_sequence = ci_sequence coin_txin,
      txin_txindex = txindex\<rparr>"

definition TxOut_of_coin :: "coin_txout \<Rightarrow> uint32_t \<Rightarrow> txout" where
  "TxOut_of_coin coin_txout txindex =
     \<lparr>txout_value = co_value coin_txout,
      txout_script = co_scriptPubKey coin_txout,
      txout_txindex = txindex,
      txout_spent = None,
      txout_signingscript = None,
      txout_account_id = None,
      txout_type = TXOUT_NONE\<rparr>"

definition TxIn_toCoinClasses :: "txin \<Rightarrow> coin_txin" where
  "TxIn_toCoinClasses this =
     \<lparr>ci_previousOut_hash = txin_outhash this,
      ci_previousOut_index = txin_outindex this,
      ci_scriptSig = txin_script this,
      ci_sequence = txin_sequence this\<rparr>"

definition TxOut_toCoinClasses :: "txout \<Rightarrow> coin_txout" where
  "TxOut_toCoinClasses this =
     \<lparr>co_value = txout_value this, co_scriptPubKey = txout_script this\<rparr>"

subsection \<open>Tx\<close>

text \<open>
  \<^verbatim>\<open>enum status_t\<close> of \<^verbatim>\<open>class Tx\<close>, with the values the source gives the
  constants (\<^verbatim>\<open>ALL\<close> is \<open>TX_ALL\<close>).
\<close>

datatype tx_status_t =
  UNSIGNED | UNSENT | SENT | TX_RECEIVED | CONFLICTED | TX_CANCELED | CONFIRMED | TX_ALL

fun tx_status_value :: "tx_status_t \<Rightarrow> nat" where
  "tx_status_value UNSIGNED = 1"
| "tx_status_value UNSENT = 2"
| "tx_status_value SENT = 4"
| "tx_status_value TX_RECEIVED = 8"
| "tx_status_value CONFLICTED = 16"
| "tx_status_value TX_CANCELED = 32"
| "tx_status_value CONFIRMED = 64"
| "tx_status_value TX_ALL = 127"

text \<open>
  \<^verbatim>\<open>txins_\<close> and \<^verbatim>\<open>txouts_\<close> are vectors of weak pointers: the transaction does
  not keep its inputs and outputs alive. An entry is \<open>Some\<close> of the object while a shared
  pointer elsewhere owns it, and \<open>None\<close> once the last shared pointer is gone and the
  weak pointer has expired. \<^verbatim>\<open>txins()\<close> and \<^verbatim>\<open>txouts()\<close> lock every entry, which
  gives a null pointer for an expired one.
\<close>

record tx =
  tx_hash :: bytes_t
  tx_unsigned_hash :: bytes_t
  tx_version :: uint32_t
  tx_txins :: "txin option list"
  tx_txouts :: "txout option list"
  tx_locktime :: uint32_t
  tx_timestamp :: uint32_t
  tx_status :: tx_status_t
  tx_have_fee :: bool
  tx_fee :: uint64_t
  tx_blockheader :: "blockheader option"
  tx_blockindex :: "uint32_t option"

text \<open>\<^verbatim>\<open>Tx(version, locktime, timestamp, status)\<close>: the hashes and the lists start empty.\<close>

definition new_Tx :: "uint32_t \<Rightarrow> uint32_t \<Rightarrow> uint32_t \<Rightarrow> tx_status_t \<Rightarrow> tx" where
  "new_Tx version locktime timestamp status =
     \<lparr>tx_hash = [], tx_unsigned_hash = [], tx_version = version, tx_txins = [],
      tx_txouts = [], tx_locktime = locktime, tx_timestamp = timestamp, tx_status = status,
      tx_have_fee = False, tx_fee = 0, tx_blockheader = None, tx_blockindex = None\<rparr>"

text \<open>
  The loops \<^verbatim>\<open>for (auto& txin: txins()) ... txin->...\<close> dereference every pointer that
  \<^verbatim>\<open>txins()\<close> returns. Dereferencing a null pointer is undefined; the function that
  does it does not return, which is the value \<open>None\<close> here. The loops change nothing
  before they reach a null pointer, so \<open>deref_all\<close> reads all the objects first.
\<close>

fun deref_all :: "'a option list \<Rightarrow> 'a list option" where
  "deref_all [] = Some []"
| "deref_all (None # rest) = None"
| "deref_all (Some x # rest) = (case deref_all rest of None \<Rightarrow> None | Some xs \<Rightarrow> Some (x # xs))"

definition Tx_toCoinClasses :: "tx \<Rightarrow> coin_transaction option" where
  "Tx_toCoinClasses this =
     (case deref_all (tx_txins this) of
        None \<Rightarrow> None
      | Some txins \<Rightarrow>
          (case deref_all (tx_txouts this) of
             None \<Rightarrow> None
           | Some txouts \<Rightarrow>
               Some \<lparr>ct_version = tx_version this,
                     ct_inputs = map TxIn_toCoinClasses txins,
                     ct_outputs = map TxOut_toCoinClasses txouts,
                     ct_lockTime = tx_locktime this\<rparr>))"

definition raw :: "coin \<Rightarrow> tx \<Rightarrow> bytes_t option" where
  "raw C this =
     (case Tx_toCoinClasses this of
        None \<Rightarrow> None
      | Some coin_tx \<Rightarrow> Some (getSerialized C coin_tx))"

text \<open>
  \<^verbatim>\<open>missingSigCount()\<close>: the loop keeps the largest \<^verbatim>\<open>sigsneeded\<close> of the input
  scripts in \<^verbatim>\<open>count\<close> (here \<open>cnt\<close>).
\<close>

fun missingSigCount_loop :: "coin \<Rightarrow> txin list \<Rightarrow> nat \<Rightarrow> nat" where
  "missingSigCount_loop C [] cnt = cnt"
| "missingSigCount_loop C (txin # rest) cnt =
     (let n = sigsneeded C (txin_script txin)
      in missingSigCount_loop C rest (if n > cnt then n else cnt))"

definition missingSigCount :: "coin \<Rightarrow> tx \<Rightarrow> nat option" where
  "missingSigCount C this =
     (case deref_all (tx_txins this) of
        None \<Rightarrow> None
      | Some txins \<Rightarrow> Some (missingSigCount_loop C txins 0))"

definition updateStatus :: "coin \<Rightarrow> tx \<Rightarrow> tx option" where
  "updateStatus C this =
     (case missingSigCount C this of
        None \<Rightarrow> None
      | Some n \<Rightarrow> Some (if n > 0 then this\<lparr>tx_status := UNSIGNED\<rparr> else this))"

definition updateHash :: "coin \<Rightarrow> tx \<Rightarrow> tx option" where
  "updateHash C this =
     (if tx_status this \<noteq> UNSIGNED then
        (case raw C this of
           None \<Rightarrow> None
         | Some bytes \<Rightarrow> Some (this\<lparr>tx_hash := rev (sha256_2 C bytes)\<rparr>))
      else Some this)"

definition updateUnsignedHash :: "coin \<Rightarrow> tx \<Rightarrow> tx option" where
  "updateUnsignedHash C this =
     (case Tx_toCoinClasses this of
        None \<Rightarrow> None
      | Some coin_tx \<Rightarrow>
          let coin_tx = clearScriptSigs coin_tx
          in Some (this\<lparr>tx_unsigned_hash := getHashLittleEndian C coin_tx\<rparr>))"

text \<open>
  Every overload of \<^verbatim>\<open>set\<close> ends with the calls \<^verbatim>\<open>updateStatus()\<close>,
  \<^verbatim>\<open>updateUnsignedHash()\<close> and \<^verbatim>\<open>updateHash()\<close>, in this order.
\<close>

definition update_all :: "coin \<Rightarrow> tx \<Rightarrow> tx option" where
  "update_all C this =
     (case updateStatus C this of
        None \<Rightarrow> None
      | Some this \<Rightarrow>
          (case updateUnsignedHash C this of
             None \<Rightarrow> None
           | Some this \<Rightarrow> updateHash C this))"

text \<open>
  The loops of \<^verbatim>\<open>set\<close> and \<^verbatim>\<open>fromCoinClasses\<close> give every input and output its
  position \<^verbatim>\<open>i++\<close>, counted from 0.
\<close>

fun stamp_txins :: "nat \<Rightarrow> txin list \<Rightarrow> txin list" where
  "stamp_txins i [] = []"
| "stamp_txins i (txin # rest) = txin\<lparr>txin_txindex := of_nat i\<rparr> # stamp_txins (Suc i) rest"

fun stamp_txouts :: "nat \<Rightarrow> txout list \<Rightarrow> txout list" where
  "stamp_txouts i [] = []"
| "stamp_txouts i (txout # rest) = txout\<lparr>txout_txindex := of_nat i\<rparr> # stamp_txouts (Suc i) rest"

fun txins_of_coin :: "nat \<Rightarrow> coin_txin list \<Rightarrow> txin list" where
  "txins_of_coin i [] = []"
| "txins_of_coin i (coin_txin # rest) = TxIn_of_coin coin_txin (of_nat i) # txins_of_coin (Suc i) rest"

fun txouts_of_coin :: "nat \<Rightarrow> coin_txout list \<Rightarrow> txout list" where
  "txouts_of_coin i [] = []"
| "txouts_of_coin i (coin_txout # rest) =
     TxOut_of_coin coin_txout (of_nat i) # txouts_of_coin (Suc i) rest"

text \<open>
  What a weak pointer holds after \<^verbatim>\<open>push_back\<close>. In \<^verbatim>\<open>set(version, txins, txouts,
  ...)\<close> the objects are owned by the shared pointers of the caller's vectors, which
  live as long as the call: the entries are \<open>alive\<close>. In \<^verbatim>\<open>fromCoinClasses\<close> the only
  shared pointer to each new \<^verbatim>\<open>TxIn\<close> and \<^verbatim>\<open>TxOut\<close> is the variable of the loop body,
  which is destroyed at the end of the iteration, and the object with it: the entries
  are \<open>expired\<close>.
\<close>

definition alive :: "'a \<Rightarrow> 'a option" where
  "alive x = Some x"

definition expired :: "'a \<Rightarrow> 'a option" where
  "expired x = None"

definition fromCoinClasses :: "coin_transaction \<Rightarrow> tx \<Rightarrow> tx" where
  "fromCoinClasses coin_tx this =
     this\<lparr>tx_version := ct_version coin_tx,
          tx_txins := map expired (txins_of_coin 0 (ct_inputs coin_tx)),
          tx_txouts := map expired (txouts_of_coin 0 (ct_outputs coin_tx)),
          tx_locktime := ct_lockTime coin_tx\<rparr>"

text \<open>The three overloads of \<^verbatim>\<open>Tx::set\<close>.\<close>

definition Tx_set ::
  "coin \<Rightarrow> uint32_t \<Rightarrow> txin list \<Rightarrow> txout list \<Rightarrow> uint32_t \<Rightarrow> uint32_t \<Rightarrow> tx_status_t
     \<Rightarrow> tx \<Rightarrow> tx option" where
  "Tx_set C version txins txouts locktime timestamp status this =
     (let this = this\<lparr>tx_version := version,
                      tx_txins := map alive (stamp_txins 0 txins),
                      tx_txouts := map alive (stamp_txouts 0 txouts),
                      tx_locktime := locktime,
                      tx_timestamp := timestamp,
                      tx_status := status\<rparr>
      in update_all C this)"

definition Tx_set_coin_tx ::
  "coin \<Rightarrow> coin_transaction \<Rightarrow> uint32_t \<Rightarrow> tx_status_t \<Rightarrow> tx \<Rightarrow> tx option" where
  "Tx_set_coin_tx C coin_tx timestamp status this =
     (let this = fromCoinClasses coin_tx this;
          this = this\<lparr>tx_timestamp := timestamp, tx_status := status\<rparr>
      in update_all C this)"

definition Tx_set_raw :: "coin \<Rightarrow> bytes_t \<Rightarrow> uint32_t \<Rightarrow> tx_status_t \<Rightarrow> tx \<Rightarrow> tx option" where
  "Tx_set_raw C bytes timestamp status this =
     (let coin_tx = Transaction_raw C bytes;
          this = fromCoinClasses coin_tx this;
          this = this\<lparr>tx_timestamp := timestamp, tx_status := status\<rparr>
      in update_all C this)"

text \<open>The setter \<^verbatim>\<open>void status(status_t status)\<close>.\<close>

definition Tx_set_status :: "tx_status_t \<Rightarrow> tx \<Rightarrow> tx" where
  "Tx_set_status status this =
     (if tx_status this \<noteq> status then this\<lparr>tx_status := status\<rparr> else this)"

subsection \<open>Names for the results of the derivations\<close>

text \<open>
  The keychain that \<^verbatim>\<open>keychain->child(i)\<close> returns and the key that
  \<^verbatim>\<open>Key(keychain, index)\<close> constructs when they do not raise, as functions of the
  keychain: the statements about the loops over all keychains are written with them.
\<close>

definition derived_child :: "'h hdkeys \<Rightarrow> uint32_t \<Rightarrow> keychain \<Rightarrow> keychain" where
  "derived_child L i keychain = projr (child L keychain i False)"

definition derived_key :: "'h hdkeys \<Rightarrow> uint32_t \<Rightarrow> keychain \<Rightarrow> key" where
  "derived_key L index keychain = projr (new_Key L keychain index)"

text \<open>
  The part of the result of the constructor of a signing script that the statements
  about the scripts compare: the error, or the two scripts.
\<close>

definition scripts_of :: "(error \<times> accountbin) + signingscript \<Rightarrow> error + bytes_t \<times> bytes_t" where
  "scripts_of r = map_sum fst (\<lambda>s. (ss_txinscript s, ss_txoutscript s)) r"


text \<open>No input and no output of the transaction has expired.\<close>

definition all_alive :: "tx \<Rightarrow> bool" where
  "all_alive t \<longleftrightarrow> None \<notin> set (tx_txins t) \<and> None \<notin> set (tx_txouts t)"


subsection \<open>Stand-ins for the collaborators\<close>

text \<open>
  The theorems below hold for every choice of the collaborators. To run the model on
  concrete inputs, these small stand-ins take the place of the HD derivation, the
  hashes and the script and transaction encodings. Nothing is proved from their
  definitions but the concrete evaluations: the public key of an HD node is its key
  behind a marker byte, a child's key and chain code are the parent's behind the child
  number, and a script's first byte says how many signatures it still needs.
\<close>

record example_hd =
  eh_key :: bytes_t
  eh_chain_code :: bytes_t
  eh_child_num :: uint32_t
  eh_parent_fp :: uint32_t
  eh_depth :: uint32_t

definition example_hdkeys :: "example_hd hdkeys" where
  "example_hdkeys =
     \<lparr>sha256 = (\<lambda>b. 1 # b),
      ripemd160 = (\<lambda>b. 2 # b),
      getMasterKey = (\<lambda>entropy. entropy),
      getMasterChainCode = (\<lambda>entropy. rev entropy),
      HDKeychain = (\<lambda>k c n fp d.
        \<lparr>eh_key = k, eh_chain_code = c, eh_child_num = n, eh_parent_fp = fp, eh_depth = d\<rparr>),
      getChild = (\<lambda>h i.
        \<lparr>eh_key = ucast i # eh_key h, eh_chain_code = ucast i # eh_chain_code h,
         eh_child_num = i, eh_parent_fp = eh_child_num h, eh_depth = eh_depth h + 1\<rparr>),
      hd_key = eh_key,
      hd_privkey = eh_key,
      hd_pubkey = (\<lambda>h. 3 # eh_key h),
      hd_chain_code = eh_chain_code,
      hd_child_num = eh_child_num,
      hd_parent_fp = eh_parent_fp,
      hd_depth = eh_depth,
      getPublicSigningKey = (\<lambda>h i. ucast i # eh_key h)\<rparr>"

definition example_serialize :: "coin_transaction \<Rightarrow> bytes_t" where
  "example_serialize t =
     concat (map (\<lambda>i. ci_previousOut_hash i @ ci_scriptSig i) (ct_inputs t))
       @ concat (map co_scriptPubKey (ct_outputs t))"

definition example_coin :: coin where
  "example_coin =
     \<lparr>multisig_txinscript = (\<lambda>m pubkeys. of_nat m # concat pubkeys),
      multisig_txoutscript = (\<lambda>m pubkeys. of_nat m # 255 # concat pubkeys),
      sigsneeded = (\<lambda>script. case script of [] \<Rightarrow> 0 | b # rest \<Rightarrow> unat b),
      sha256_2 = (\<lambda>b. 5 # b),
      getSerialized = example_serialize,
      getHashLittleEndian = (\<lambda>t. 6 # example_serialize t),
      Transaction_raw = (\<lambda>b. \<lparr>ct_version = 1, ct_inputs = [], ct_outputs = [], ct_lockTime = 0\<rparr>)\<rparr>"

text \<open>
  Two root keychains as \<open>new_Keychain example_hdkeys\<close> returns them for the entropies
  \<open>[7, 9]\<close> and \<open>[4, 6]\<close>, and the private child 5 of the first as
  \<open>child example_hdkeys\<close> returns it.
\<close>

definition example_root :: keychain where
  "example_root = Keychain
     \<lparr>kf_name = ''root'', kf_depth = 0, kf_parent_fp = 0, kf_child_num = 0,
      kf_pubkey = [3, 7, 9], kf_chain_code = [9, 7], kf_chain_code_ciphertext = [9, 7],
      kf_chain_code_salt = [], kf_privkey = [7, 9], kf_privkey_ciphertext = [7, 9],
      kf_privkey_salt = [], kf_derivation_path = [], kf_hash = [2, 1, 3, 7, 9, 9, 7]\<rparr> None"

definition example_root2 :: keychain where
  "example_root2 = Keychain
     \<lparr>kf_name = ''cosigner'', kf_depth = 0, kf_parent_fp = 0, kf_child_num = 0,
      kf_pubkey = [3, 4, 6], kf_chain_code = [6, 4], kf_chain_code_ciphertext = [6, 4],
      kf_chain_code_salt = [], kf_privkey = [4, 6], kf_privkey_ciphertext = [4, 6],
      kf_privkey_salt = [], kf_derivation_path = [], kf_hash = [2, 1, 3, 4, 6, 6, 4]\<rparr> None"

definition example_child :: keychain where
  "example_child = Keychain
     \<lparr>kf_name = [], kf_depth = 1, kf_parent_fp = 0, kf_child_num = 5,
      kf_pubkey = [3, 5, 7, 9], kf_chain_code = [5, 9, 7], kf_chain_code_ciphertext = [],
      kf_chain_code_salt = [], kf_privkey = [5, 7, 9], kf_privkey_ciphertext = [],
      kf_privkey_salt = [], kf_derivation_path = [5], kf_hash = [2, 1, 3, 5, 7, 9, 5, 9, 7]\<rparr>
     (Some example_root)"

text \<open>
  A 2-of-2 account over the two root keychains, the same account with the keychains
  enumerated in the other order, and an account without keychains; a bin with index 1
  for each of the first two.
\<close>

definition example_account :: account where
  "example_account =
     \<lparr>acct_name = ''joint'', acct_minsigs = 2, acct_keychains = [example_root, example_root2],
      acct_unused_pool_size = 25, acct_time_created = 0\<rparr>"

definition example_account_swapped :: account where
  "example_account_swapped = example_account\<lparr>acct_keychains := [example_root2, example_root]\<rparr>"

definition example_account_empty :: account where
  "example_account_empty =
     \<lparr>acct_name = ''joint'', acct_minsigs = 0, acct_keychains = [],
      acct_unused_pool_size = 25, acct_time_created = 0\<rparr>"

definition example_bin :: accountbin where
  "example_bin = new_AccountBin example_account 1 ''change''"

definition example_bin_swapped :: accountbin where
  "example_bin_swapped = new_AccountBin example_account_swapped 1 ''change''"

text \<open>
  An input whose script needs no further signature and the same input with a script that
  needs two, for the stand-in \<open>sigsneeded\<close>.
\<close>

definition example_txin_signed :: txin where
  "example_txin_signed =
     \<lparr>txin_outhash = [8, 8], txin_outindex = 0, txin_script = [0, 9], txin_sequence = 0,
      txin_txindex = 0\<rparr>"

definition example_txin_unsigned :: txin where
  "example_txin_unsigned = example_txin_signed\<lparr>txin_script := [2]\<rparr>"

text \<open>
  The transactions that \<open>Tx_set example_coin\<close> returns for a new transaction and the
  one input, signed and unsigned.
\<close>

definition example_tx_signed :: tx where
  "example_tx_signed =
     \<lparr>tx_hash = [9, 0, 8, 8, 5], tx_unsigned_hash = [6, 8, 8], tx_version = 1,
      tx_txins = [Some example_txin_signed], tx_txouts = [], tx_locktime = 0,
      tx_timestamp = 100, tx_status = TX_RECEIVED, tx_have_fee = False, tx_fee = 0,
      tx_blockheader = None, tx_blockindex = None\<rparr>"

definition example_tx_unsigned :: tx where
  "example_tx_unsigned =
     \<lparr>tx_hash = [], tx_unsigned_hash = [6, 8, 8], tx_version = 1,
      tx_txins = [Some example_txin_unsigned], tx_txouts = [], tx_locktime = 0,
      tx_timestamp = 100, tx_status = UNSIGNED, tx_have_fee = False, tx_fee = 0,
      tx_blockheader = None, tx_blockindex = None\<rparr>"

text \<open>
  The 2-of-2 account while the chain code of its second keychain is locked, in both
  orders of enumeration, and the bin of the first as a failed construction of a signing
  script leaves it: with the child of the first keychain in the cache.
\<close>

definition example_account_locked :: account where
  "example_account_locked =
     example_account\<lparr>acct_keychains := [example_root, lockChainCode example_root2]\<rparr>"

definition example_account_locked_swapped :: account where
  "example_account_locked_swapped =
     example_account\<lparr>acct_keychains := [lockChainCode example_root2, example_root]\<rparr>"

definition example_bin_half_loaded :: accountbin where
  "example_bin_half_loaded =
     (new_AccountBin example_account_locked 1 ''change'')
       \<lparr>bin_keychains := [derived_child example_hdkeys 1 example_root]\<rparr>"

section \<open>Properties\<close>

subsection \<open>Keychain: evaluation lemmas\<close>

lemma members_assign [simp]: "members (assign g k) = g (members k)"
  by (simp add: assign_def)

lemma parent_assign [simp]: "parent (assign g k) = parent k"
  by (simp add: assign_def)

lemmas keychain_defs =
  isPrivate_def setPrivateKeyLockKey_def setChainCodeLockKey_def lockPrivateKey_def
  lockChainCode_def lockAll_def unlockPrivateKey_def unlockChainCode_def

lemma example_root_constructed:
  "new_Keychain example_hdkeys ''root'' [7, 9] lock_key [] = Inr example_root"
  by (simp add: new_Keychain_def example_hdkeys_def example_root_def keychain_defs hd_hash_def
      assign_def Let_def)

lemma example_root2_constructed:
  "new_Keychain example_hdkeys ''cosigner'' [4, 6] lock_key [] = Inr example_root2"
  by (simp add: new_Keychain_def example_hdkeys_def example_root2_def keychain_defs hd_hash_def
      assign_def Let_def)

lemma example_child_derived: "child example_hdkeys example_root 5 True = Inr example_child"
  by (simp add: child_def example_hdkeys_def example_root_def example_child_def isPrivate_def
      hd_hash_def Let_def)

text \<open>
  The state in which the stored ciphertexts hold the present private key and chain
  code: the two \<^verbatim>\<open>set...LockKey\<close> functions establish it, so the constructor of a root
  keychain does, and \<open>child\<close> does not (it leaves both ciphertexts empty).
\<close>

lemma setLockKeys_store_cleartext:
  assumes "setPrivateKeyLockKey lk salt k0 = Inr k1" and "setChainCodeLockKey lk' salt' k1 = Inr k"
  shows "kc_privkey k \<noteq> [] \<and> kc_chain_code k \<noteq> [] \<and>
         kc_privkey_ciphertext k = kc_privkey k \<and> kc_chain_code_ciphertext k = kc_chain_code k"
  using assms by (auto simp: setPrivateKeyLockKey_def setChainCodeLockKey_def split: if_splits)

lemma new_Keychain_stores_cleartext:
  assumes "new_Keychain L name entropy lock_key salt = Inr k"
  shows "kc_privkey k \<noteq> [] \<and> kc_chain_code k \<noteq> [] \<and>
         kc_privkey_ciphertext k = kc_privkey k \<and> kc_chain_code_ciphertext k = kc_chain_code k"
  using assms
  by (auto simp: new_Keychain_def Let_def split: if_splits sum.splits
      dest: setLockKeys_store_cleartext)

lemma child_ciphertexts_empty:
  assumes "child L this i get_private = Inr c"
  shows "kc_privkey_ciphertext c = [] \<and> kc_chain_code_ciphertext c = []"
  using assms by (auto simp: child_def Let_def split: if_splits)

lemma child_cannot_unlock:
  assumes "child L this i get_private = Inr c"
  shows "unlockPrivateKey key (lockAll c)
           = Inl (runtime_error ''Cannot unlock the private key of a public keychain.'')"
  using child_ciphertexts_empty [OF assms] by (simp add: keychain_defs)

subsection \<open>C1: locking and unlocking\<close>

text \<open>
  C1, as amended. For every keychain whose private key and chain code are present and
  whose stored ciphertexts \<^verbatim>\<open>privkey_ciphertext_\<close> and \<^verbatim>\<open>chain_code_ciphertext_\<close>
  equal them, \<^verbatim>\<open>lockAll()\<close> followed by \<^verbatim>\<open>unlockPrivateKey(key)\<close> and
  \<^verbatim>\<open>unlockChainCode(key)\<close> gives back the keychain as it was before the lock, private
  key and chain code included: unlocking the private key of the locked keychain returns
  the keychain with only its chain code locked, and unlocking the chain code of that
  returns the original.
\<close>

theorem lock_unlock_roundtrip:
  assumes "kc_privkey this \<noteq> []" and "kc_chain_code this \<noteq> []"
    and "kc_privkey_ciphertext this = kc_privkey this"
    and "kc_chain_code_ciphertext this = kc_chain_code this"
  shows "unlockPrivateKey key1 (lockAll this) = Inr (lockChainCode this) \<and>
         unlockChainCode key2 (lockChainCode this) = this"
proof
  have "isPrivate (lockAll this)"
    using assms(1,3) by (simp add: keychain_defs)
  moreover have "kc_privkey (lockAll this) = []"
    by (simp add: keychain_defs)
  moreover have "assign (\<lambda>f. f\<lparr>kf_privkey := kf_privkey_ciphertext f\<rparr>) (lockAll this)
                   = lockChainCode this"
    using assms(3) by (simp add: keychain_defs assign_def)
  ultimately show "unlockPrivateKey key1 (lockAll this) = Inr (lockChainCode this)"
    by (simp add: unlockPrivateKey_def)
next
  have "Keychain (members this) (parent this) = this"
    by simp
  then show "unlockChainCode key2 (lockChainCode this) = this"
    using assms(4) by (simp add: unlockChainCode_def lockChainCode_def assign_def)
qed

theorem lock_unlock_roundtrip_witness:
  "new_Keychain example_hdkeys ''root'' [7, 9] [] [] = Inr example_root \<and>
   kc_privkey example_root = [7, 9] \<and> kc_chain_code example_root = [9, 7] \<and>
   kc_privkey_ciphertext example_root = kc_privkey example_root \<and>
   kc_chain_code_ciphertext example_root = kc_chain_code example_root \<and>
   unlockPrivateKey [1] (lockAll example_root) = Inr (lockChainCode example_root) \<and>
   unlockChainCode [1] (lockChainCode example_root) = example_root"
  using lock_unlock_roundtrip [of example_root "[1]" "[1]"] example_root_constructed [of "[]"]
  by (simp add: example_root_def)

text \<open>
  The claim as stated fails for a keychain derived by \<open>child\<close>: the private child 5 of
  a root keychain has its private key and chain code present, but after \<open>lockAll\<close> the
  unlocking of the private key raises, and the unlocking of the chain code leaves it
  empty.
\<close>

theorem lock_unlock_child_counterexample:
  "child example_hdkeys example_root 5 True = Inr example_child \<and>
   kc_privkey example_child = [5, 7, 9] \<and> kc_chain_code example_child = [5, 9, 7] \<and>
   unlockPrivateKey [1] (lockAll example_child)
     = Inl (runtime_error ''Cannot unlock the private key of a public keychain.'') \<and>
   kc_chain_code (unlockChainCode [1] (lockAll example_child)) = []"
  using example_child_derived by (simp add: example_child_def keychain_defs)

subsection \<open>C10: the lock key is not used\<close>

text \<open>
  C10. The keychain that \<^verbatim>\<open>unlockPrivateKey\<close> and \<^verbatim>\<open>unlockChainCode\<close> return does
  not depend on the lock key: any two keys give the same result, whatever the state of
  the keychain. The same holds for what \<^verbatim>\<open>setPrivateKeyLockKey\<close> and
  \<^verbatim>\<open>setChainCodeLockKey\<close> store.
\<close>

theorem unlock_independent_of_lock_key:
  "unlockPrivateKey k1 this = unlockPrivateKey k2 this \<and>
   unlockChainCode k1 this = unlockChainCode k2 this \<and>
   setPrivateKeyLockKey k1 salt this = setPrivateKeyLockKey k2 salt this \<and>
   setChainCodeLockKey k1 salt this = setChainCodeLockKey k2 salt this"
  by (simp add: keychain_defs)

subsection \<open>C6: the hash of a keychain\<close>

text \<open>
  The copy assignment computes the hash from the public key and the cleartext chain
  code it has just copied. For a source whose chain code is locked that is the hash of
  the public key alone, and it stays so when the chain code is unlocked afterwards.
\<close>

lemma operator_assign_hash:
  "kc_hash (Keychain_operator_assign L this source)
     = ripemd160 L (sha256 L (kc_pubkey source @ kc_chain_code source))"
  by (simp add: Keychain_operator_assign_def Let_def)

lemma operator_assign_locked_source:
  assumes "kc_chain_code source = []"
  shows "kc_hash (unlockChainCode key (Keychain_operator_assign L this source))
           = ripemd160 L (sha256 L (kc_pubkey source)) \<and>
         kc_pubkey (unlockChainCode key (Keychain_operator_assign L this source))
           = kc_pubkey source \<and>
         kc_chain_code (unlockChainCode key (Keychain_operator_assign L this source))
           = kc_chain_code_ciphertext source"
  using assms by (simp add: Keychain_operator_assign_def unlockChainCode_def Let_def)

text \<open>
  C6 fails for the copy assignment from a keychain whose chain code is locked. The root
  keychain has the hash \<open>[2, 1, 3, 7, 9, 9, 7]\<close> of its public key \<open>[3, 7, 9]\<close> and
  chain code \<open>[9, 7]\<close>. Assigned to another keychain while its chain code is locked, it
  gives that keychain the hash \<open>[2, 1, 3, 7, 9]\<close> of the public key alone; after
  \<^verbatim>\<open>unlockChainCode\<close> the keychain has the public key and the chain code of the root,
  and a hash that is not \<^verbatim>\<open>ripemd160(sha256(pubkey + chain_code))\<close>.
\<close>

theorem operator_assign_locked_source_hash:
  "kc_hash example_root = [2, 1, 3, 7, 9, 9, 7] \<and>
   kc_hash (Keychain_operator_assign example_hdkeys example_root2 (lockChainCode example_root))
     = [2, 1, 3, 7, 9] \<and>
   kc_pubkey (unlockChainCode []
       (Keychain_operator_assign example_hdkeys example_root2 (lockChainCode example_root)))
     = [3, 7, 9] \<and>
   kc_chain_code (unlockChainCode []
       (Keychain_operator_assign example_hdkeys example_root2 (lockChainCode example_root)))
     = [9, 7] \<and>
   kc_hash (unlockChainCode []
       (Keychain_operator_assign example_hdkeys example_root2 (lockChainCode example_root)))
     = [2, 1, 3, 7, 9] \<and>
   ripemd160 example_hdkeys (sha256 example_hdkeys ([3, 7, 9] @ [9, 7])) = [2, 1, 3, 7, 9, 9, 7]"
  by (simp add: Keychain_operator_assign_def unlockChainCode_def lockChainCode_def
      example_root_def example_root2_def example_hdkeys_def Let_def)

subsection \<open>C5: the constructor of an account\<close>

text \<open>
  C5, as amended. The constructor of an account raises exactly when the name is empty
  or starts with \<open>@\<close>, or there are more than 15 keychains, or \<open>minsigs\<close> exceeds the
  number of keychains (there is no lower bound on the number of keychains). When it
  does not raise, the fields of the account are the arguments. In particular it raises
  for 16 keychains, and for \<open>minsigs = 3\<close> over 2 keychains.
\<close>

theorem new_Account_validation:
  "(isl (new_Account name minsigs keychains unused_pool_size time_created) \<longleftrightarrow>
      name = [] \<or> hd name = CHR ''@'' \<or> 15 < length keychains \<or> length keychains < minsigs) \<and>
   (\<not> isl (new_Account name minsigs keychains unused_pool_size time_created) \<longrightarrow>
      new_Account name minsigs keychains unused_pool_size time_created =
        Inr \<lparr>acct_name = name, acct_minsigs = minsigs, acct_keychains = keychains,
             acct_unused_pool_size = unused_pool_size, acct_time_created = time_created\<rparr>) \<and>
   (length keychains = 16 \<longrightarrow>
      isl (new_Account name minsigs keychains unused_pool_size time_created)) \<and>
   (minsigs = 3 \<and> length keychains = 2 \<longrightarrow>
      isl (new_Account name minsigs keychains unused_pool_size time_created))"
  by (simp add: new_Account_def)

theorem new_Account_validation_witness:
  "\<not> isl (new_Account ''joint'' 2 [example_root, example_root2] 25 0) \<and>
   new_Account ''joint'' 2 [example_root, example_root2] 25 0 =
     Inr \<lparr>acct_name = ''joint'', acct_minsigs = 2, acct_keychains = [example_root, example_root2],
          acct_unused_pool_size = 25, acct_time_created = 0\<rparr> \<and>
   isl (new_Account ''joint'' 2 (replicate 16 example_root) 25 0) \<and>
   isl (new_Account ''joint'' 3 [example_root, example_root2] 25 0)"
  using new_Account_validation [of "''joint''" 2 "[example_root, example_root2]" 25 0]
    new_Account_validation [of "''joint''" 2 "replicate 16 example_root" 25 0]
    new_Account_validation [of "''joint''" 3 "[example_root, example_root2]" 25 0]
  by simp

text \<open>
  The claim as stated fails for an empty set of keychains: its size is outside 1 to 15,
  and with \<open>minsigs = 0\<close> the constructor returns the account.
\<close>

theorem new_Account_no_keychains_counterexample:
  "new_Account ''joint'' 0 [] 25 0 =
     Inr \<lparr>acct_name = ''joint'', acct_minsigs = 0, acct_keychains = [],
          acct_unused_pool_size = 25, acct_time_created = 0\<rparr>"
  by (simp add: new_Account_def)

subsection \<open>C9: decoding the status of a signing script\<close>

lemma getStatusFlags_filter:
  "getStatusFlags status =
     filter (\<lambda>f. status AND ss_status_value f \<noteq> 0)
       [SS_UNUSED, SS_CHANGE, SS_PENDING, SS_RECEIVED, SS_CANCELED]"
  by (simp add: getStatusFlags_def)

lemma getStatusString_flags:
  "getStatusString delimited_list status =
     (if getStatusFlags status = [] then ''UNKNOWN''
      else delimited_list (map ss_status_name (getStatusFlags status)) '' | '')"
  by (simp add: getStatusFlags_def getStatusString_def)

lemma no_flag_bit:
  fixes status :: "32 word"
  assumes "status AND 31 = 0" and "m AND 31 = m"
  shows "status AND m = 0"
proof -
  have "status AND m = status AND (31 AND m)"
    using assms(2) by (simp add: and.commute)
  also have "\<dots> = (status AND 31) AND m"
    by (simp add: and.assoc)
  finally show ?thesis
    using assms(1) by simp
qed

text \<open>
  C9, as amended. For every status value, \<^verbatim>\<open>getStatusFlags\<close> returns the flags whose
  bit is set, in the order UNUSED, CHANGE, PENDING, RECEIVED, CANCELED, and
  \<^verbatim>\<open>getStatusString\<close> returns their names in that order, joined by
  \<^verbatim>\<open>delimited_list\<close> with \<^verbatim>\<open>" | "\<close>. For a status with none of the five bits set,
  \<^verbatim>\<open>getStatusString\<close> returns \<^verbatim>\<open>"UNKNOWN"\<close> and \<^verbatim>\<open>getStatusFlags\<close> returns the
  empty list.
\<close>

theorem getStatus_decoding:
  "getStatusFlags status =
     filter (\<lambda>f. status AND ss_status_value f \<noteq> 0)
       [SS_UNUSED, SS_CHANGE, SS_PENDING, SS_RECEIVED, SS_CANCELED] \<and>
   getStatusString delimited_list status =
     (if getStatusFlags status = [] then ''UNKNOWN''
      else delimited_list (map ss_status_name (getStatusFlags status)) '' | '') \<and>
   (status AND 31 = 0 \<longrightarrow>
      getStatusString delimited_list status = ''UNKNOWN'' \<and> getStatusFlags status = [])"
proof (intro conjI impI)
  assume none: "status AND 31 = 0"
  have "status AND 1 = 0" "status AND 2 = 0" "status AND 4 = 0" "status AND 8 = 0"
    "status AND 16 = 0"
    using none by (simp_all add: no_flag_bit)
  then show flags: "getStatusFlags status = []"
    by (simp add: getStatusFlags_filter)
  then show "getStatusString delimited_list status = ''UNKNOWN''"
    by (simp add: getStatusString_flags)
qed (rule getStatusFlags_filter getStatusString_flags)+

theorem getStatus_decoding_witness:
  "(32 :: 32 word) AND 31 = 0 \<and>
   getStatusString (\<lambda>xs d. concat xs) 32 = ''UNKNOWN'' \<and> getStatusFlags 32 = [] \<and>
   getStatusFlags 10 = [SS_CHANGE, SS_RECEIVED]"
  using getStatus_decoding [of 32 "\<lambda>xs d. concat xs"] getStatus_decoding [of 10]
  by simp

text \<open>
  The claim as stated fails for \<^verbatim>\<open>getStatusFlags\<close>: for the status 0 it returns the
  empty list, not a marker (the type \<^verbatim>\<open>status_t\<close> of its elements has no constant for
  one).
\<close>

theorem getStatusFlags_zero_counterexample: "getStatusFlags 0 = []"
  by (simp add: getStatusFlags_def)

subsection \<open>C8: loading the keychains of a bin\<close>

text \<open>
  Without \<^verbatim>\<open>get_private\<close>, \<open>child\<close> raises only for a locked chain code. The loop
  of \<open>loadKeychains\<close> appends the children in the order of the account's keychains, or
  stops at the first locked chain code.
\<close>

lemma child_public:
  "child L k i False =
     (if kc_chain_code k = [] then Inl (runtime_error ''Chain code is locked.'')
      else Inr (derived_child L i k))"
  by (simp add: derived_child_def child_def Let_def)

lemma loadKeychains_loop_unlocked:
  assumes "\<forall>k \<in> set ks. kc_chain_code k \<noteq> []"
  shows "loadKeychains_loop L ks b =
           Inr (b\<lparr>bin_keychains :=
                  bin_keychains b @ map (derived_child L (bin_index b)) ks\<rparr>)"
  using assms
proof (induction ks arbitrary: b)
  case Nil
  then show ?case by simp
next
  case (Cons k ks)
  let ?c = "derived_child L (bin_index b) k"
  from Cons.prems have k: "child L k (bin_index b) False = Inr ?c"
    by (simp add: child_public)
  from Cons.prems have "\<forall>k \<in> set ks. kc_chain_code k \<noteq> []"
    by simp
  from Cons.IH [OF this, of "b\<lparr>bin_keychains := bin_keychains b @ [?c]\<rparr>"] k
  show ?case by simp
qed

lemma loadKeychains_loop_locked:
  assumes "\<exists>k \<in> set ks. kc_chain_code k = []"
  shows "\<exists>b'. loadKeychains_loop L ks b = Inl (runtime_error ''Chain code is locked.'', b')"
  using assms
proof (induction ks arbitrary: b)
  case Nil
  then show ?case by simp
next
  case (Cons k ks)
  show ?case
  proof (cases "kc_chain_code k = []")
    case True
    then show ?thesis
      by (simp add: child_public [of L k])
  next
    case False
    with Cons.prems have "\<exists>k \<in> set ks. kc_chain_code k = []"
      by auto
    from Cons.IH [OF this] False show ?thesis
      by (simp add: child_public [of L k])
  qed
qed

lemma loadKeychains_cached:
  "bin_keychains b \<noteq> [] \<Longrightarrow> loadKeychains L b = Inr (False, b)"
  by (simp add: loadKeychains_def)

text \<open>
  C8, as amended. For a bin whose cache is empty, whose account has at least one
  keychain and none with a locked chain code, the first \<^verbatim>\<open>loadKeychains()\<close> derives
  for every keychain of the account its child at the index of the bin, caches the
  children and returns true; the next call returns false and leaves the bin as it is.
  More generally every call on a bin with a non-empty cache returns false and leaves the
  bin as it is.
\<close>

theorem loadKeychains_idempotent:
  assumes "bin_keychains this = []"
    and "acct_keychains (bin_account this) \<noteq> []"
    and "\<forall>k \<in> set (acct_keychains (bin_account this)). kc_chain_code k \<noteq> []"
  shows "(\<exists>cs. loadKeychains L this = Inr (True, this\<lparr>bin_keychains := cs\<rparr>) \<and>
            list_all2 (\<lambda>k c. child L k (bin_index this) False = Inr c)
              (acct_keychains (bin_account this)) cs \<and>
            loadKeychains L (this\<lparr>bin_keychains := cs\<rparr>)
              = Inr (False, this\<lparr>bin_keychains := cs\<rparr>)) \<and>
         (bin_keychains b \<noteq> [] \<longrightarrow> loadKeychains L b = Inr (False, b))"
proof
  let ?ks = "acct_keychains (bin_account this)"
  let ?cs = "map (derived_child L (bin_index this)) ?ks"
  have first: "loadKeychains L this = Inr (True, this\<lparr>bin_keychains := ?cs\<rparr>)"
    using assms(1) loadKeychains_loop_unlocked [OF assms(3), of L this]
    by (simp add: loadKeychains_def)
  have children: "list_all2 (\<lambda>k c. child L k (bin_index this) False = Inr c) ?ks ?cs"
    unfolding list_all2_map2 using assms(3)
    by (simp add: list_all2_same child_public)
  have "?cs \<noteq> []"
    using assms(2) by simp
  then have "loadKeychains L (this\<lparr>bin_keychains := ?cs\<rparr>)
               = Inr (False, this\<lparr>bin_keychains := ?cs\<rparr>)"
    by (simp add: loadKeychains_cached)
  with first children
  show "\<exists>cs. loadKeychains L this = Inr (True, this\<lparr>bin_keychains := cs\<rparr>) \<and>
           list_all2 (\<lambda>k c. child L k (bin_index this) False = Inr c)
             (acct_keychains (bin_account this)) cs \<and>
           loadKeychains L (this\<lparr>bin_keychains := cs\<rparr>) = Inr (False, this\<lparr>bin_keychains := cs\<rparr>)"
    by blast
next
  show "bin_keychains b \<noteq> [] \<longrightarrow> loadKeychains L b = Inr (False, b)"
    by (simp add: loadKeychains_cached)
qed

theorem loadKeychains_idempotent_witness:
  "bin_keychains example_bin = [] \<and>
   acct_keychains (bin_account example_bin) = [example_root, example_root2] \<and>
   list_all (\<lambda>k. kc_chain_code k \<noteq> []) [example_root, example_root2] \<and>
   (\<exists>cs. loadKeychains example_hdkeys example_bin = Inr (True, example_bin\<lparr>bin_keychains := cs\<rparr>) \<and>
      list_all2 (\<lambda>k c. child example_hdkeys k (bin_index example_bin) False = Inr c)
        [example_root, example_root2] cs \<and>
      map kc_pubkey cs = [[3, 1, 3, 7, 9], [3, 1, 3, 4, 6]] \<and>
      loadKeychains example_hdkeys (example_bin\<lparr>bin_keychains := cs\<rparr>)
        = Inr (False, example_bin\<lparr>bin_keychains := cs\<rparr>))"
proof -
  have fresh: "bin_keychains example_bin = []"
    and ks: "acct_keychains (bin_account example_bin) = [example_root, example_root2]"
    by (simp_all add: example_bin_def new_AccountBin_def example_account_def)
  have unlocked: "\<forall>k \<in> set (acct_keychains (bin_account example_bin)). kc_chain_code k \<noteq> []"
    by (simp add: ks example_root_def example_root2_def)
  have nonempty: "acct_keychains (bin_account example_bin) \<noteq> []"
    by (simp add: ks)
  from loadKeychains_idempotent [OF fresh nonempty unlocked, of example_hdkeys example_bin]
  obtain cs where cs: "loadKeychains example_hdkeys example_bin
        = Inr (True, example_bin\<lparr>bin_keychains := cs\<rparr>)"
      "list_all2 (\<lambda>k c. child example_hdkeys k (bin_index example_bin) False = Inr c)
        [example_root, example_root2] cs"
      "loadKeychains example_hdkeys (example_bin\<lparr>bin_keychains := cs\<rparr>)
        = Inr (False, example_bin\<lparr>bin_keychains := cs\<rparr>)"
    unfolding ks by blast
  from cs(2) have "map kc_pubkey cs = [[3, 1, 3, 7, 9], [3, 1, 3, 4, 6]]"
    by (auto simp: list_all2_Cons1 child_def example_hdkeys_def example_root_def
        example_root2_def example_bin_def new_AccountBin_def Let_def)
  with cs fresh ks show ?thesis
    by (auto simp: example_root_def example_root2_def)
qed

text \<open>
  The claim as stated fails for the bin of an account without keychains (which the
  constructor of accounts accepts): the first call returns true and leaves the cache
  empty, so the call after it is the same call again and returns true as well.
\<close>

theorem loadKeychains_empty_account_counterexample:
  "new_Account ''joint'' 0 [] 25 0 = Inr example_account_empty \<and>
   loadKeychains example_hdkeys (new_AccountBin example_account_empty 1 ''change'')
     = Inr (True, new_AccountBin example_account_empty 1 ''change'')"
  by (simp add: new_Account_def example_account_empty_def loadKeychains_def new_AccountBin_def)

subsection \<open>C4: the scripts and the order of the keychains\<close>

text \<open>
  The constructor of a key raises only for a locked chain code, and so does the loop
  over the keychains of the bin; otherwise it appends the keys in the order of the
  keychains.
\<close>

lemma new_Key_result:
  "new_Key L k index =
     (if kc_chain_code k = [] then Inl (runtime_error ''Chain code is locked.'')
      else Inr (derived_key L index k))"
  by (simp add: derived_key_def new_Key_def getSigningPublicKey_kc_def Let_def)

lemma keys_loop_unlocked:
  assumes "\<forall>k \<in> set ks. kc_chain_code k \<noteq> []"
  shows "keys_loop L ks index keys = Inr (keys @ map (derived_key L index) ks)"
  using assms by (induction ks arbitrary: keys) (simp_all add: new_Key_result)

lemma keys_loop_locked:
  assumes "\<exists>k \<in> set ks. kc_chain_code k = []"
  shows "keys_loop L ks index keys = Inl (runtime_error ''Chain code is locked.'')"
  using assms
proof (induction ks arbitrary: keys)
  case Nil
  then show ?case by simp
next
  case (Cons k ks)
  then show ?case
    by (cases "kc_chain_code k = []") (simp_all add: new_Key_result)
qed

text \<open>Sorting by a key and reading the keys off is sorting the keys.\<close>

lemma map_sort_key: "map f (sort_key f xs) = sort (map f xs)"
  by (rule properties_for_sort [symmetric]) simp_all

lemma sort_cong_mset: "mset xs = mset ys \<Longrightarrow> sort xs = sort ys"
  by (rule properties_for_sort) simp_all

text \<open>
  What the constructor of a signing script returns, as far as the scripts go. They are
  built from the sorted public keys of the keys of the bin's keychains, which are the
  cached ones, or the children of the account's keychains when the cache is empty.
\<close>

lemma new_SigningScript_scripts:
  fixes L :: "'h hdkeys"
  defines "locked \<equiv> Inl (runtime_error ''Chain code is locked.'')"
  shows "scripts_of (new_SigningScript L C b index label status) =
     (let ks = acct_keychains (bin_account b);
          cs = (if bin_keychains b \<noteq> [] then bin_keychains b
                else map (derived_child L (bin_index b)) ks);
          pubkeys = sort (map (key_pubkey \<circ> derived_key L index) cs);
          m = acct_minsigs (bin_account b)
      in if bin_keychains b = [] \<and> (\<exists>k \<in> set ks. kc_chain_code k = []) then locked
         else if \<exists>c \<in> set cs. kc_chain_code c = [] then locked
         else Inr (multisig_txinscript C m pubkeys, multisig_txoutscript C m pubkeys))"
proof (cases "bin_keychains b = []")
  case cached: False
  show ?thesis
  proof (cases "\<exists>c \<in> set (bin_keychains b). kc_chain_code c = []")
    case True
    with cached show ?thesis
      by (simp add: scripts_of_def new_SigningScript_def loadKeychains_cached keys_loop_locked
          locked_def)
  next
    case False
    then have "\<forall>c \<in> set (bin_keychains b). kc_chain_code c \<noteq> []"
      by simp
    from keys_loop_unlocked [OF this, of L index "[]"] cached False show ?thesis
      by (simp add: scripts_of_def new_SigningScript_def loadKeychains_cached map_sort_key
          Let_def)
  qed
next
  case fresh: True
  let ?ks = "acct_keychains (bin_account b)"
  let ?cs = "map (derived_child L (bin_index b)) ?ks"
  show ?thesis
  proof (cases "\<exists>k \<in> set ?ks. kc_chain_code k = []")
    case True
    from loadKeychains_loop_locked [OF this, of L b] fresh True show ?thesis
      by (auto simp: scripts_of_def new_SigningScript_def loadKeychains_def locked_def)
  next
    case False
    then have "\<forall>k \<in> set ?ks. kc_chain_code k \<noteq> []"
      by simp
    from loadKeychains_loop_unlocked [OF this, of L b] fresh
    have loaded: "loadKeychains L b = Inr (True, b\<lparr>bin_keychains := ?cs\<rparr>)"
      by (simp add: loadKeychains_def)
    show ?thesis
    proof (cases "\<exists>c \<in> set ?cs. kc_chain_code c = []")
      case True
      from keys_loop_locked [OF this, of L index "[]"] loaded fresh False True show ?thesis
        by (simp add: scripts_of_def new_SigningScript_def locked_def)
    next
      case unlocked: False
      then have "\<forall>c \<in> set ?cs. kc_chain_code c \<noteq> []"
        by simp
      from keys_loop_unlocked [OF this, of L index "[]"] loaded fresh False unlocked
      show ?thesis
        by (simp add: scripts_of_def new_SigningScript_def map_sort_key Let_def comp_assoc)
    qed
  qed
qed

text \<open>
  Where the order does not matter. Two bins with the same index whose accounts have the
  same \<open>minsigs\<close> and the same keychains, enumerated in any two orders, and whose caches
  hold the same keychains in any two orders (both empty, for instance), give the same
  result in the constructor of a signing script for the same script index: either both
  raise the same error, or both scripts have the same \<^verbatim>\<open>txinscript\<close> and the same
  \<^verbatim>\<open>txoutscript\<close>.
\<close>

lemma signing_script_order_independent:
  assumes "mset (acct_keychains (bin_account b')) = mset (acct_keychains (bin_account b))"
    and "mset (bin_keychains b') = mset (bin_keychains b)"
    and "acct_minsigs (bin_account b') = acct_minsigs (bin_account b)"
    and "bin_index b' = bin_index b"
  shows "scripts_of (new_SigningScript L C b' index label' status')
           = scripts_of (new_SigningScript L C b index label status)"
proof -
  let ?cs = "if bin_keychains b \<noteq> [] then bin_keychains b
             else map (derived_child L (bin_index b)) (acct_keychains (bin_account b))"
  let ?cs' = "if bin_keychains b \<noteq> [] then bin_keychains b'
              else map (derived_child L (bin_index b)) (acct_keychains (bin_account b'))"
  have empty: "bin_keychains b' = [] \<longleftrightarrow> bin_keychains b = []"
    using assms(2) by (metis mset_zero_iff)
  have ks: "set (acct_keychains (bin_account b')) = set (acct_keychains (bin_account b))"
    using assms(1) by (rule mset_eq_setD)
  have "mset (map (derived_child L (bin_index b)) (acct_keychains (bin_account b')))
          = mset (map (derived_child L (bin_index b)) (acct_keychains (bin_account b)))"
    using assms(1) by (metis mset_map)
  with assms(2) have cs: "mset ?cs' = mset ?cs"
    by simp
  then have cs_set: "set ?cs' = set ?cs"
    by (rule mset_eq_setD)
  have "mset (map (key_pubkey \<circ> derived_key L index) ?cs')
          = mset (map (key_pubkey \<circ> derived_key L index) ?cs)"
    using cs by (metis mset_map)
  then have pubkeys: "sort (map (key_pubkey \<circ> derived_key L index) ?cs')
          = sort (map (key_pubkey \<circ> derived_key L index) ?cs)"
    by (rule sort_cong_mset)
  have "scripts_of (new_SigningScript L C b' index label' status') =
     (if bin_keychains b = [] \<and> (\<exists>k \<in> set (acct_keychains (bin_account b')). kc_chain_code k = [])
      then Inl (runtime_error ''Chain code is locked.'')
      else if \<exists>c \<in> set ?cs'. kc_chain_code c = []
      then Inl (runtime_error ''Chain code is locked.'')
      else Inr (multisig_txinscript C (acct_minsigs (bin_account b))
                  (sort (map (key_pubkey \<circ> derived_key L index) ?cs')),
                multisig_txoutscript C (acct_minsigs (bin_account b))
                  (sort (map (key_pubkey \<circ> derived_key L index) ?cs'))))"
    by (simp only: new_SigningScript_scripts Let_def empty assms(3,4))
  also have "\<dots> = scripts_of (new_SigningScript L C b index label status)"
    by (simp only: new_SigningScript_scripts Let_def pubkeys cs_set ks)
  finally show ?thesis .
qed

lemma signing_script_order_independent_example:
  "acct_keychains (bin_account example_bin) = [example_root, example_root2] \<and>
   acct_keychains (bin_account example_bin_swapped) = [example_root2, example_root] \<and>
   scripts_of (new_SigningScript example_hdkeys example_coin example_bin 0 ''first'' SS_UNUSED)
     = Inr ([2, 0, 3, 1, 3, 4, 6, 0, 3, 1, 3, 7, 9],
            [2, 255, 0, 3, 1, 3, 4, 6, 0, 3, 1, 3, 7, 9]) \<and>
   scripts_of (new_SigningScript example_hdkeys example_coin example_bin_swapped 0 ''first'' SS_UNUSED)
     = Inr ([2, 0, 3, 1, 3, 4, 6, 0, 3, 1, 3, 7, 9],
            [2, 255, 0, 3, 1, 3, 4, 6, 0, 3, 1, 3, 7, 9])"
proof -
  have bins: "acct_keychains (bin_account example_bin) = [example_root, example_root2]"
    "acct_keychains (bin_account example_bin_swapped) = [example_root2, example_root]"
    "bin_keychains example_bin_swapped = []" "bin_keychains example_bin = []"
    "acct_minsigs (bin_account example_bin_swapped) = acct_minsigs (bin_account example_bin)"
    "bin_index example_bin_swapped = bin_index example_bin"
    by (simp_all add: example_bin_def example_bin_swapped_def new_AccountBin_def
        example_account_def example_account_swapped_def)
  have perm: "mset (acct_keychains (bin_account example_bin_swapped))
                = mset (acct_keychains (bin_account example_bin))"
    by (simp add: bins)
  have cache: "mset (bin_keychains example_bin_swapped) = mset (bin_keychains example_bin)"
    by (simp add: bins)
  have "scripts_of (new_SigningScript example_hdkeys example_coin example_bin 0 ''first'' SS_UNUSED)
     = Inr ([2, 0, 3, 1, 3, 4, 6, 0, 3, 1, 3, 7, 9],
            [2, 255, 0, 3, 1, 3, 4, 6, 0, 3, 1, 3, 7, 9])"
    by (simp add: scripts_of_def new_SigningScript_def loadKeychains_def child_def new_Key_def
        getSigningPublicKey_kc_def isPrivate_def example_bin_def new_AccountBin_def
        example_account_def example_root_def example_root2_def example_hdkeys_def
        example_coin_def hd_hash_def Let_def)
  with signing_script_order_independent [OF perm cache bins(5) bins(6),
      of example_hdkeys example_coin 0 "''first''" SS_UNUSED "''first''" SS_UNUSED] bins(1,2)
  show ?thesis by simp
qed

text \<open>
  C4 fails when a construction has raised before. With the chain code of the second
  keychain locked, the first construction raises in both orders of enumeration, but
  \<open>loadKeychains\<close> has cached the child of the first keychain when the locked one comes
  second, and nothing when it comes first. The next construction on the same bin then
  depends on the order: repeated as it is, it returns scripts of one key in the one
  order and raises in the other; repeated after the chain code has been unlocked, it
  returns scripts of one key in the one order and of both keys in the other.
\<close>

theorem signing_script_after_failed_load:
  "mset (acct_keychains example_account_locked_swapped)
     = mset (acct_keychains example_account_locked) \<and>
   new_SigningScript example_hdkeys example_coin
       (new_AccountBin example_account_locked 1 ''change'') 0 [] SS_UNUSED
     = Inl (runtime_error ''Chain code is locked.'', example_bin_half_loaded) \<and>
   new_SigningScript example_hdkeys example_coin
       (new_AccountBin example_account_locked_swapped 1 ''change'') 0 [] SS_UNUSED
     = Inl (runtime_error ''Chain code is locked.'',
            new_AccountBin example_account_locked_swapped 1 ''change'') \<and>
   scripts_of (new_SigningScript example_hdkeys example_coin example_bin_half_loaded 0 [] SS_UNUSED)
     = Inr ([2, 0, 3, 1, 3, 7, 9], [2, 255, 0, 3, 1, 3, 7, 9]) \<and>
   scripts_of (new_SigningScript example_hdkeys example_coin
       (new_AccountBin example_account_locked_swapped 1 ''change'') 0 [] SS_UNUSED)
     = Inl (runtime_error ''Chain code is locked.'') \<and>
   unlockChainCode [] (lockChainCode example_root2) = example_root2 \<and>
   scripts_of (new_SigningScript example_hdkeys example_coin
       (example_bin_half_loaded\<lparr>bin_account := example_account\<rparr>) 0 [] SS_UNUSED)
     = Inr ([2, 0, 3, 1, 3, 7, 9], [2, 255, 0, 3, 1, 3, 7, 9]) \<and>
   scripts_of (new_SigningScript example_hdkeys example_coin
       ((new_AccountBin example_account_locked_swapped 1 ''change'')
          \<lparr>bin_account := example_account_swapped\<rparr>) 0 [] SS_UNUSED)
     = Inr ([2, 0, 3, 1, 3, 4, 6, 0, 3, 1, 3, 7, 9],
            [2, 255, 0, 3, 1, 3, 4, 6, 0, 3, 1, 3, 7, 9])"
proof -
  note defs = new_SigningScript_def loadKeychains_def child_def new_Key_def
    getSigningPublicKey_kc_def isPrivate_def new_AccountBin_def derived_child_def
    example_bin_half_loaded_def example_account_locked_def example_account_locked_swapped_def
    example_account_swapped_def example_account_def example_root_def example_root2_def
    lockChainCode_def unlockChainCode_def assign_def example_hdkeys_def example_coin_def
    hd_hash_def scripts_of_def Let_def
  have "mset (acct_keychains example_account_locked_swapped)
     = mset (acct_keychains example_account_locked)"
    by (simp add: example_account_locked_def example_account_locked_swapped_def)
  moreover have "new_SigningScript example_hdkeys example_coin
       (new_AccountBin example_account_locked 1 ''change'') 0 [] SS_UNUSED
     = Inl (runtime_error ''Chain code is locked.'', example_bin_half_loaded)"
    by (simp add: defs)
  moreover have "new_SigningScript example_hdkeys example_coin
       (new_AccountBin example_account_locked_swapped 1 ''change'') 0 [] SS_UNUSED
     = Inl (runtime_error ''Chain code is locked.'',
            new_AccountBin example_account_locked_swapped 1 ''change'')"
    by (simp add: defs)
  moreover have "scripts_of (new_SigningScript example_hdkeys example_coin
       example_bin_half_loaded 0 [] SS_UNUSED)
     = Inr ([2, 0, 3, 1, 3, 7, 9], [2, 255, 0, 3, 1, 3, 7, 9])"
    by (simp add: defs)
  moreover have "unlockChainCode [] (lockChainCode example_root2) = example_root2"
    by (simp add: defs)
  moreover have "scripts_of (new_SigningScript example_hdkeys example_coin
       (example_bin_half_loaded\<lparr>bin_account := example_account\<rparr>) 0 [] SS_UNUSED)
     = Inr ([2, 0, 3, 1, 3, 7, 9], [2, 255, 0, 3, 1, 3, 7, 9])"
    by (simp add: defs)
  moreover have "scripts_of (new_SigningScript example_hdkeys example_coin
       ((new_AccountBin example_account_locked_swapped 1 ''change'')
          \<lparr>bin_account := example_account_swapped\<rparr>) 0 [] SS_UNUSED)
     = Inr ([2, 0, 3, 1, 3, 4, 6, 0, 3, 1, 3, 7, 9],
            [2, 255, 0, 3, 1, 3, 4, 6, 0, 3, 1, 3, 7, 9])"
    by (simp add: defs)
  ultimately show ?thesis
    by (simp add: scripts_of_def)
qed

subsection \<open>Tx: weak pointers\<close>

lemma deref_all_alive [simp]: "deref_all (map alive xs) = Some xs"
  by (induction xs) (simp_all add: alive_def)

lemma deref_all_expired [simp]: "deref_all (map expired xs) = (if xs = [] then Some [] else None)"
  by (cases xs) (simp_all add: expired_def)

lemma deref_all_None_iff: "deref_all ps = None \<longleftrightarrow> None \<in> set ps"
  by (induction ps rule: deref_all.induct) (auto split: option.splits)

lemma alive_not_None [simp]: "None \<notin> alive ` A"
  by (auto simp: alive_def)

lemma missingSigCount_update [simp]:
  "missingSigCount C (t\<lparr>tx_unsigned_hash := h\<rparr>) = missingSigCount C t"
  "missingSigCount C (t\<lparr>tx_hash := h\<rparr>) = missingSigCount C t"
  "missingSigCount C (t\<lparr>tx_status := s\<rparr>) = missingSigCount C t"
  by (simp_all add: missingSigCount_def)

lemma all_alive_returns:
  assumes "all_alive t"
  obtains n coin_tx where "missingSigCount C t = Some n" and "Tx_toCoinClasses t = Some coin_tx"
proof -
  from assms obtain txins txouts
    where "deref_all (tx_txins t) = Some txins" and "deref_all (tx_txouts t) = Some txouts"
    using deref_all_None_iff [of "tx_txins t"] deref_all_None_iff [of "tx_txouts t"]
    by (auto simp: all_alive_def)
  then show thesis
    by (intro that) (simp_all add: missingSigCount_def Tx_toCoinClasses_def)
qed

lemma updates_return:
  assumes "all_alive t"
  shows "updateStatus C t \<noteq> None" and "updateUnsignedHash C t \<noteq> None"
    and "updateHash C t \<noteq> None"
proof -
  from assms obtain n coin_tx
    where "missingSigCount C t = Some n" and "Tx_toCoinClasses t = Some coin_tx"
    by (rule all_alive_returns)
  then show "updateStatus C t \<noteq> None" and "updateUnsignedHash C t \<noteq> None"
    and "updateHash C t \<noteq> None"
    by (simp_all add: updateStatus_def updateUnsignedHash_def updateHash_def raw_def Let_def)
qed

lemma deref_all_rel:
  assumes "list_all2 (rel_option R) ps qs"
  shows "rel_option (list_all2 R) (deref_all ps) (deref_all qs)"
  using assms
proof (induction rule: list_all2_induct)
  case Nil
  show ?case by simp
next
  case (Cons p ps q qs)
  from Cons.hyps(1) show ?case
  proof (cases rule: option.rel_cases)
    case None
    then show ?thesis by simp
  next
    case (Some x y)
    with Cons.IH show ?thesis
      by (cases "deref_all ps"; cases "deref_all qs") simp_all
  qed
qed

lemma txins_of_coin_Nil [simp]: "txins_of_coin i xs = [] \<longleftrightarrow> xs = []"
  by (cases xs) simp_all

lemma txouts_of_coin_Nil [simp]: "txouts_of_coin i xs = [] \<longleftrightarrow> xs = []"
  by (cases xs) simp_all

subsection \<open>C2: the unsigned hash does not depend on the input scripts\<close>

lemma txin_same_but_script:
  assumes "a\<lparr>txin_script := []\<rparr> = b\<lparr>txin_script := []\<rparr>"
  shows "(TxIn_toCoinClasses a)\<lparr>ci_scriptSig := []\<rparr> = (TxIn_toCoinClasses b)\<lparr>ci_scriptSig := []\<rparr>"
proof -
  have "txin_outhash a = txin_outhash b"
    using arg_cong [OF assms, of txin_outhash] by simp
  moreover have "txin_outindex a = txin_outindex b"
    using arg_cong [OF assms, of txin_outindex] by simp
  moreover have "txin_sequence a = txin_sequence b"
    using arg_cong [OF assms, of txin_sequence] by simp
  ultimately show ?thesis
    by (simp add: TxIn_toCoinClasses_def)
qed

lemma cleared_inputs_equal:
  assumes "list_all2 (\<lambda>a b. a\<lparr>txin_script := []\<rparr> = b\<lparr>txin_script := []\<rparr>) xs ys"
  shows "map (\<lambda>i. i\<lparr>ci_scriptSig := []\<rparr>) (map TxIn_toCoinClasses xs)
           = map (\<lambda>i. i\<lparr>ci_scriptSig := []\<rparr>) (map TxIn_toCoinClasses ys)"
  using assms
proof (induction rule: list_all2_induct)
  case Nil
  show ?case by simp
next
  case (Cons a xs b ys)
  from txin_same_but_script [OF Cons.hyps(1)] Cons.IH show ?case
    by simp
qed

text \<open>
  C2. Two transactions that are identical except in the scripts of their inputs (same
  version, lock time and outputs, and inputs that agree pairwise in every field but the
  script) get the same \<^verbatim>\<open>unsigned_hash_\<close> from \<^verbatim>\<open>updateUnsignedHash()\<close>, whatever the
  scripts are and however many inputs there are: \<^verbatim>\<open>updateUnsignedHash()\<close> returns for
  both or for neither, with the same \<^verbatim>\<open>unsigned_hash_\<close>, and it returns whenever no
  input and no output of the transaction has expired.
\<close>

theorem unsigned_hash_ignores_input_scripts:
  assumes "list_all2 (rel_option (\<lambda>a b. a\<lparr>txin_script := []\<rparr> = b\<lparr>txin_script := []\<rparr>))
             (tx_txins t1) (tx_txins t2)"
    and "tx_version t1 = tx_version t2"
    and "tx_txouts t1 = tx_txouts t2"
    and "tx_locktime t1 = tx_locktime t2"
  shows "map_option tx_unsigned_hash (updateUnsignedHash C t1)
           = map_option tx_unsigned_hash (updateUnsignedHash C t2) \<and>
         (all_alive t1 \<longrightarrow> updateUnsignedHash C t1 \<noteq> None)"
proof
  from deref_all_rel [OF assms(1)]
  show "map_option tx_unsigned_hash (updateUnsignedHash C t1)
          = map_option tx_unsigned_hash (updateUnsignedHash C t2)"
  proof (cases rule: option.rel_cases)
    case None
    then show ?thesis
      by (simp add: updateUnsignedHash_def Tx_toCoinClasses_def)
  next
    case (Some xs ys)
    from cleared_inputs_equal [OF Some(3)] Some(1,2) assms(2-4) show ?thesis
      by (cases "deref_all (tx_txouts t2)")
        (simp_all add: updateUnsignedHash_def Tx_toCoinClasses_def clearScriptSigs_def Let_def)
  qed
next
  show "all_alive t1 \<longrightarrow> updateUnsignedHash C t1 \<noteq> None"
    using updates_return(2) [of t1 C] by blast
qed

theorem unsigned_hash_ignores_input_scripts_witness:
  "txin_script example_txin_signed = [0, 9] \<and> txin_script example_txin_unsigned = [2] \<and>
   tx_txins example_tx_signed = [Some example_txin_signed] \<and>
   tx_txins example_tx_unsigned = [Some example_txin_unsigned] \<and>
   map_option tx_unsigned_hash (updateUnsignedHash example_coin example_tx_signed)
     = Some [6, 8, 8] \<and>
   map_option tx_unsigned_hash (updateUnsignedHash example_coin example_tx_unsigned)
     = Some [6, 8, 8]"
proof -
  have same: "list_all2 (rel_option (\<lambda>a b. a\<lparr>txin_script := []\<rparr> = b\<lparr>txin_script := []\<rparr>))
      (tx_txins example_tx_signed) (tx_txins example_tx_unsigned)"
    by (simp add: example_tx_signed_def example_tx_unsigned_def example_txin_unsigned_def)
  have rest: "tx_version example_tx_signed = tx_version example_tx_unsigned"
    "tx_txouts example_tx_signed = tx_txouts example_tx_unsigned"
    "tx_locktime example_tx_signed = tx_locktime example_tx_unsigned"
    by (simp_all add: example_tx_signed_def example_tx_unsigned_def)
  have "map_option tx_unsigned_hash (updateUnsignedHash example_coin example_tx_signed)
     = Some [6, 8, 8]"
    by (simp add: updateUnsignedHash_def Tx_toCoinClasses_def TxIn_toCoinClasses_def
        clearScriptSigs_def example_coin_def example_serialize_def example_txin_signed_def
        example_tx_signed_def Let_def)
  with unsigned_hash_ignores_input_scripts [OF same rest, of example_coin]
  show ?thesis
    by (simp add: example_tx_signed_def example_tx_unsigned_def example_txin_signed_def
        example_txin_unsigned_def)
qed

subsection \<open>C3: the hash of an unsigned transaction\<close>







text \<open>
  \<^verbatim>\<open>set(coin_tx, ...)\<close> and \<^verbatim>\<open>set(raw, ...)\<close> leave only expired inputs and
  outputs in the transaction, and the three calls that follow dereference all of them:
  these overloads return for a transaction without inputs and outputs only.
\<close>

lemma update_all_fromCoinClasses:
  "map_option tx_status
     (update_all C ((fromCoinClasses coin_tx t)\<lparr>tx_timestamp := timestamp, tx_status := status\<rparr>))
     = (if ct_inputs coin_tx = [] \<and> ct_outputs coin_tx = [] then Some status else None)"
  by (simp add: update_all_def updateStatus_def updateUnsignedHash_def updateHash_def raw_def
      missingSigCount_def Tx_toCoinClasses_def fromCoinClasses_def Let_def)











subsection \<open>C7: the transitions of the status\<close>

lemma missingSigCount_loop_stamp:
  "missingSigCount_loop C (stamp_txins i txins) cnt = missingSigCount_loop C txins cnt"
  by (induction txins arbitrary: i cnt) (simp_all add: Let_def)

lemma Tx_set_status_result:
  "map_option tx_status (Tx_set C version txins txouts locktime timestamp status this)
     = Some (if 0 < missingSigCount_loop C txins 0 then UNSIGNED else status)"
  by (simp add: Tx_set_def update_all_def updateStatus_def updateUnsignedHash_def
      updateHash_def raw_def missingSigCount_def Tx_toCoinClasses_def missingSigCount_loop_stamp
      Let_def)

text \<open>
  C7, as amended. The operations do not order the status. The setter stores the status
  it is given, whatever the status was. \<^verbatim>\<open>updateStatus()\<close> leaves the status as it is
  when \<^verbatim>\<open>missingSigCount()\<close> is 0 and otherwise sets it to \<^verbatim>\<open>UNSIGNED\<close>, the smallest
  constant, whatever the status was (\<^verbatim>\<open>CONFIRMED\<close> or not).
  \<^verbatim>\<open>set(version, txins, txouts, ...)\<close> stores the status it is given and then does
  what \<^verbatim>\<open>updateStatus()\<close> does for the new inputs. \<^verbatim>\<open>set(coin_tx, ...)\<close> and
  \<^verbatim>\<open>set(raw, ...)\<close> return only for a transaction without inputs and outputs, and then
  store the status they are given.
\<close>

theorem status_transitions:
  "tx_status (Tx_set_status status this) = status \<and>
   map_option tx_status (updateStatus C this)
     = map_option (\<lambda>n. if 0 < n then UNSIGNED else tx_status this) (missingSigCount C this) \<and>
   map_option tx_status (Tx_set C version txins txouts locktime timestamp status this)
     = Some (if 0 < missingSigCount_loop C txins 0 then UNSIGNED else status) \<and>
   map_option tx_status (Tx_set_coin_tx C coin_tx timestamp status this)
     = (if ct_inputs coin_tx = [] \<and> ct_outputs coin_tx = [] then Some status else None) \<and>
   map_option tx_status (Tx_set_raw C bytes timestamp status this)
     = (if ct_inputs (Transaction_raw C bytes) = [] \<and> ct_outputs (Transaction_raw C bytes) = []
        then Some status else None)"
proof (intro conjI)
  show "map_option tx_status (updateStatus C this)
     = map_option (\<lambda>n. if 0 < n then UNSIGNED else tx_status this) (missingSigCount C this)"
    by (cases "missingSigCount C this") (simp_all add: updateStatus_def)
  show "map_option tx_status (Tx_set_coin_tx C coin_tx timestamp status this)
     = (if ct_inputs coin_tx = [] \<and> ct_outputs coin_tx = [] then Some status else None)"
    by (simp add: Tx_set_coin_tx_def update_all_fromCoinClasses Let_def)
  show "map_option tx_status (Tx_set_raw C bytes timestamp status this)
     = (if ct_inputs (Transaction_raw C bytes) = [] \<and> ct_outputs (Transaction_raw C bytes) = []
        then Some status else None)"
    by (simp add: Tx_set_raw_def update_all_fromCoinClasses Let_def)
qed (simp_all add: Tx_set_status_def Tx_set_status_result)

text \<open>
  The claim as stated fails: the setter takes a transaction from \<^verbatim>\<open>RECEIVED\<close> (8),
  which is not \<^verbatim>\<open>CONFIRMED\<close>, to \<^verbatim>\<open>UNSENT\<close> (2).
\<close>

theorem status_regression_counterexample:
  "tx_status (new_Tx 1 0 100 TX_RECEIVED) = TX_RECEIVED \<and>
   tx_status (Tx_set_status UNSENT (new_Tx 1 0 100 TX_RECEIVED)) = UNSENT \<and>
   tx_status_value UNSENT < tx_status_value TX_RECEIVED \<and>
   TX_RECEIVED \<noteq> CONFIRMED"
  by (simp add: Tx_set_status_def new_Tx_def)

end
